theory Spec2Isabelle
  imports Main "HOL-Library.Word" "HOL-Library.Signed_Division"
begin

unbundle bit_operations_syntax

section \<open>Data model of package stores (local.go)\<close>

text \<open>
  The storage identifier \<open>ID\<close> is a string type in the source
  (\<open>string(info.ID)\<close>, \<open>ID(PathByType(srcIds, fileType))\<close>).
\<close>

type_synonym ID = string

text \<open>
  Modelled from the spec: the declaration of \<open>SectorFileType\<close> and of its constants
  is not part of local.go. The spec describes a file type as a single-bit flag over the
  fixed ordered set Unsealed, Sealed, Cache, and local.go converts it with
  \<open>uint(typ)\<close> and combines it with the integer operators; it is a machine integer here.
\<close>

type_synonym SectorFileType = "64 word"

definition FTNone :: SectorFileType where "FTNone = 0"
definition FTUnsealed :: SectorFileType where "FTUnsealed = 1"
definition FTSealed :: SectorFileType where "FTSealed = 2"
definition FTCache :: SectorFileType where "FTCache = 4"

text \<open>\<open>var PathTypes = []SectorFileType{FTUnsealed, FTSealed, FTCache}\<close>\<close>

definition PathTypes :: "SectorFileType list" where
  "PathTypes = [FTUnsealed, FTSealed, FTCache]"

text \<open>
  Modelled from the spec: \<open>PathType\<close> is declared outside local.go. The spec gives it the
  two values Sealing and Storage; \<open>MoveStorage\<close> passes the literal \<open>false\<close> for it
  when it allocates the destination of a move into long-term storage, so it is a boolean
  type whose \<open>false\<close> value is \<open>PathStorage\<close>.
\<close>

type_synonym PathType = bool

definition PathStorage :: PathType where "PathStorage = False"
definition PathSealing :: PathType where "PathSealing = True"

text \<open>
  Modelled from the spec: \<open>AcquireMode\<close> is declared outside local.go; the spec names
  the modes Move and Copy and states that nothing branches on them.
\<close>

datatype AcquireMode = AcquireMove | AcquireCopy

text \<open>
  Modelled from the spec: \<open>StorageInfo\<close> is declared outside local.go. The spec lists
  per storage identifier the weight, the two capabilities and the reachable URLs;
  local.go builds it in \<open>OpenPath\<close> with exactly the fields below. The entries
  returned by \<open>StorageFindSector\<close> carry in addition the \<open>Primary\<close> mark read by
  \<open>RemoveCopies\<close>.
\<close>

record StorageInfo =
  ID :: ID
  URLs :: "string list"
  Weight :: "64 word"
  CanSeal :: bool
  CanStore :: bool

record SectorStorageInfo = StorageInfo +
  Primary :: bool

text \<open>
  Modelled from the spec: \<open>SectorPaths\<close>, \<open>PathByType\<close> and \<open>SetPathByType\<close> are
  declared outside local.go. The spec describes a value holding, per file type, an
  optional path or storage identifier string; the empty string is the absent entry
  (the zero value of \<open>var out SectorPaths\<close>). local.go calls both functions only
  with members of \<open>PathTypes\<close>; for any other argument the model reads the empty string
  and writes nothing.
\<close>

record SectorPaths =
  Unsealed :: string
  Sealed :: string
  Cache :: string

definition emptyPaths :: SectorPaths where
  "emptyPaths = \<lparr>Unsealed = [], Sealed = [], Cache = []\<rparr>"

definition PathByType :: "SectorPaths \<Rightarrow> SectorFileType \<Rightarrow> string" where
  "PathByType sps fileType =
     (if fileType = FTUnsealed then Unsealed sps
      else if fileType = FTSealed then Sealed sps
      else if fileType = FTCache then Cache sps
      else [])"

definition SetPathByType :: "SectorPaths \<Rightarrow> SectorFileType \<Rightarrow> string \<Rightarrow> SectorPaths" where
  "SetPathByType sps fileType p =
     (if fileType = FTUnsealed then sps\<lparr>Unsealed := p\<rparr>
      else if fileType = FTSealed then sps\<lparr>Sealed := p\<rparr>
      else if fileType = FTCache then sps\<lparr>Cache := p\<rparr>
      else sps)"

subsection \<open>The collaborators\<close>

text \<open>
  The index (\<open>SectorIndex\<close>) and the local disk are external. Their joint state is an
  abstract value of type \<open>'w\<close>; a query reads it, a mutation returns the new state
  together with the Go \<open>error\<close> (\<open>None\<close> is \<open>nil\<close>). Errors of the collaborators are
  messages. Sector identifiers \<open>'s\<close> and proof types \<open>'p\<close> are opaque.
\<close>

record ('w, 's, 'p) SectorIndex =
  StorageFindSector :: "'w \<Rightarrow> 's \<Rightarrow> SectorFileType \<Rightarrow> bool \<Rightarrow> string + SectorStorageInfo list"
  StorageBestAlloc :: "'w \<Rightarrow> SectorFileType \<Rightarrow> 'p \<Rightarrow> PathType \<Rightarrow> string + StorageInfo list"
  StorageInfoOf :: "'w \<Rightarrow> ID \<Rightarrow> string + StorageInfo"
  StorageDropSector :: "'w \<Rightarrow> ID \<Rightarrow> 's \<Rightarrow> SectorFileType \<Rightarrow> string option \<times> 'w"
  StorageDeclareSector :: "'w \<Rightarrow> ID \<Rightarrow> 's \<Rightarrow> SectorFileType \<Rightarrow> bool \<Rightarrow> string option \<times> 'w"

text \<open>
  Functions of the package and of the Go runtime that local.go calls and that are not
  defined in it: \<open>SectorName\<close>, the rendering of a file type that is none of the three
  known ones, \<open>os.RemoveAll\<close> and \<open>move\<close>.
\<close>

record ('w, 's) Host =
  SectorName :: "'s \<Rightarrow> string"
  unknownTypeName :: "SectorFileType \<Rightarrow> string"
  RemoveAll :: "'w \<Rightarrow> string \<Rightarrow> string option \<times> 'w"
  move :: "'w \<Rightarrow> string \<Rightarrow> string \<Rightarrow> string option \<times> 'w"

text \<open>
  Modelled from the spec: \<open>SectorFileType.String\<close> is declared outside local.go. The
  spec fixes the directory names of the three file types; the name of any other value is
  left to the host.
\<close>

definition String :: "('w, 's) Host \<Rightarrow> SectorFileType \<Rightarrow> string" where
  "String h t =
     (if t = FTUnsealed then ''unsealed''
      else if t = FTSealed then ''sealed''
      else if t = FTCache then ''cache''
      else unknownTypeName h t)"

text \<open>\<open>type path struct { local string }\<close> and the fields of \<open>Local\<close> that the operations read.\<close>

record path =
  local :: string

record ('w, 's, 'p) Local =
  index :: "('w, 's, 'p) SectorIndex"
  paths :: "ID \<rightharpoonup> path"

subsection \<open>path/filepath.Join of the Go library (Unix)\<close>

text \<open>
  \<open>Clean\<close> reads the path from left to right and writes the cleaned path into a buffer
  \<open>out\<close>; \<open>dotdot\<close> is the length of the prefix of the buffer that a \<open>..\<close> element
  must not remove.
\<close>

fun backtrack :: "string \<Rightarrow> nat \<Rightarrow> nat \<Rightarrow> nat" where
  "backtrack out dotdot 0 = 0"
| "backtrack out dotdot (Suc w) =
     (if Suc w > dotdot \<and> out ! (Suc w) \<noteq> CHR ''/'' then backtrack out dotdot w else Suc w)"

function cleanLoop :: "bool \<Rightarrow> string \<Rightarrow> string \<Rightarrow> nat \<Rightarrow> string" where
  "cleanLoop rooted [] out dotdot = out"
| "cleanLoop rooted (c # cs) out dotdot =
     (if c = CHR ''/'' then cleanLoop rooted cs out dotdot
      else if c = CHR ''.'' \<and> (cs = [] \<or> hd cs = CHR ''/'') then cleanLoop rooted cs out dotdot
      else if c = CHR ''.'' \<and> hd cs = CHR ''.'' \<and> (tl cs = [] \<or> hd (tl cs) = CHR ''/'') then
        (if length out > dotdot then
           cleanLoop rooted (tl cs) (take (backtrack out dotdot (length out - 1)) out) dotdot
         else if \<not> rooted then
           (let out' = (if length out > 0 then out @ ''/'' else out) @ ''..''
            in cleanLoop rooted (tl cs) out' (length out'))
         else cleanLoop rooted (tl cs) out dotdot)
      else
        (let out' = (if rooted \<and> length out \<noteq> 1 \<or> \<not> rooted \<and> length out \<noteq> 0
                     then out @ ''/'' else out)
         in cleanLoop rooted (dropWhile (\<lambda>x. x \<noteq> CHR ''/'') cs)
              (out' @ c # takeWhile (\<lambda>x. x \<noteq> CHR ''/'') cs) dotdot))"
  by pat_completeness auto
termination
  by (relation "measure (\<lambda>(rooted, p, out, dotdot). length p)")
     (auto simp: less_Suc_eq_le length_dropWhile_le intro: le_trans [OF _ length_dropWhile_le])

definition Clean :: "string \<Rightarrow> string" where
  "Clean p =
     (if p = [] then ''.''
      else let rooted = (hd p = CHR ''/'');
               out = (if rooted then cleanLoop True (tl p) ''/'' 1 else cleanLoop False p [] 0)
           in if out = [] then ''.'' else out)"

fun joinSep :: "string list \<Rightarrow> string" where
  "joinSep [] = []"
| "joinSep [e] = e"
| "joinSep (e # es) = e @ ''/'' @ joinSep es"

fun Join :: "string list \<Rightarrow> string" where
  "Join [] = []"
| "Join (e # es) = (if e \<noteq> [] then Clean (joinSep (e # es)) else Join es)"

subsection \<open>Errors\<close>

text \<open>
  One constructor per error that local.go creates or wraps; the argument is the error of
  the collaborator that is wrapped with \<open>%w\<close>.
\<close>

datatype error =
    ConflictingFileTypeRequest \<comment> \<open>can't both find and allocate a sector\<close>
  | BestAllocFailed string \<comment> \<open>finding best storage for allocating\<close>
  | NoSuitableStorage \<comment> \<open>couldn't find a suitable path for a sector\<close>
  | SingleFileTypeRequired \<comment> \<open>delete expects one file type\<close>
  | FindSectorFailed string \<comment> \<open>finding existing sector failed\<close>
  | SectorNotFound \<comment> \<open>can't delete sector, not found\<close>
  | DropSectorFailed string \<comment> \<open>dropping sector from index\<close>
  | AcquireDestFailed error \<comment> \<open>acquire dest storage\<close>
  | AcquireSrcFailed error \<comment> \<open>acquire src storage\<close>
  | StorageInfoFailed string \<comment> \<open>failed to get source storage info\<close>
  | DropSourceFailed string \<comment> \<open>dropping source sector from index\<close>
  | MoveFailed string \<comment> \<open>moving sector\<close>
  | DeclareSectorFailed string \<comment> \<open>declare sector\<close>

section \<open>AcquireSector\<close>

text \<open>
  The inner loop of the first half: the first candidate that is registered with a
  non-empty mount root is recorded, \<open>existing\<close> loses the bit, and the scan stops
  (\<open>break\<close>).
\<close>

fun scanExisting ::
  "('w, 's) Host \<Rightarrow> ('w, 's, 'p) Local \<Rightarrow> 's \<Rightarrow> SectorFileType \<Rightarrow> SectorStorageInfo list \<Rightarrow>
   SectorPaths \<times> SectorPaths \<times> SectorFileType \<Rightarrow> SectorPaths \<times> SectorPaths \<times> SectorFileType" where
  "scanExisting h st sid fileType [] (out, storageIDs, existing) = (out, storageIDs, existing)"
| "scanExisting h st sid fileType (info # si) (out, storageIDs, existing) =
     (case paths st (ID info) of
        None \<Rightarrow> scanExisting h st sid fileType si (out, storageIDs, existing)
      | Some p \<Rightarrow>
          if local p = [] then scanExisting h st sid fileType si (out, storageIDs, existing)
          else (SetPathByType out fileType (Join [local p, String h fileType, SectorName h sid]),
                SetPathByType storageIDs fileType (ID info),
                existing XOR fileType))"

text \<open>
  The first loop over \<open>PathTypes\<close>. An error of \<open>StorageFindSector\<close> is logged and the
  loop goes on with the next type (\<open>continue\<close>).
\<close>

fun findExisting ::
  "('w, 's) Host \<Rightarrow> ('w, 's, 'p) Local \<Rightarrow> 'w \<Rightarrow> 's \<Rightarrow> SectorFileType list \<Rightarrow>
   SectorPaths \<times> SectorPaths \<times> SectorFileType \<Rightarrow> SectorPaths \<times> SectorPaths \<times> SectorFileType" where
  "findExisting h st w sid [] acc = acc"
| "findExisting h st w sid (fileType # ts) (out, storageIDs, existing) =
     (if fileType AND existing = 0 then findExisting h st w sid ts (out, storageIDs, existing)
      else case StorageFindSector (index st) w sid fileType False of
             Inl err \<Rightarrow> findExisting h st w sid ts (out, storageIDs, existing)
           | Inr si \<Rightarrow>
               findExisting h st w sid ts
                 (scanExisting h st sid fileType si (out, storageIDs, existing)))"

text \<open>
  The inner loop of the second half: every candidate that passes the four guards
  overwrites \<open>best\<close> and \<open>bestID\<close>.
\<close>

fun pickBest ::
  "('w, 's) Host \<Rightarrow> ('w, 's, 'p) Local \<Rightarrow> 's \<Rightarrow> SectorFileType \<Rightarrow> PathType \<Rightarrow> StorageInfo list \<Rightarrow>
   string \<times> ID \<Rightarrow> string \<times> ID" where
  "pickBest h st sid fileType pathType [] (best, bestID) = (best, bestID)"
| "pickBest h st sid fileType pathType (si # sis) (best, bestID) =
     (case paths st (ID si) of
        None \<Rightarrow> pickBest h st sid fileType pathType sis (best, bestID)
      | Some p \<Rightarrow>
          if local p = [] then pickBest h st sid fileType pathType sis (best, bestID)
          else if pathType = PathSealing \<and> \<not> CanSeal si then
            pickBest h st sid fileType pathType sis (best, bestID)
          else if pathType = PathStorage \<and> \<not> CanStore si then
            pickBest h st sid fileType pathType sis (best, bestID)
          else pickBest h st sid fileType pathType sis
                 (Join [local p, String h fileType, SectorName h sid], ID si))"

text \<open>
  The second loop over \<open>PathTypes\<close>. An error of \<open>StorageBestAlloc\<close> and an empty
  \<open>best\<close> both return from \<open>AcquireSector\<close>.
\<close>

fun allocateNew ::
  "('w, 's) Host \<Rightarrow> ('w, 's, 'p) Local \<Rightarrow> 'w \<Rightarrow> 's \<Rightarrow> 'p \<Rightarrow> PathType \<Rightarrow> SectorFileType list \<Rightarrow>
   SectorPaths \<times> SectorPaths \<times> SectorFileType \<Rightarrow>
   error + (SectorPaths \<times> SectorPaths \<times> SectorFileType)" where
  "allocateNew h st w sid spt pathType [] acc = Inr acc"
| "allocateNew h st w sid spt pathType (fileType # ts) (out, storageIDs, allocate) =
     (if fileType AND allocate = 0 then
        allocateNew h st w sid spt pathType ts (out, storageIDs, allocate)
      else case StorageBestAlloc (index st) w fileType spt pathType of
             Inl err \<Rightarrow> Inl (BestAllocFailed err)
           | Inr sis \<Rightarrow>
               (case pickBest h st sid fileType pathType sis ([], []) of
                  (best, bestID) \<Rightarrow>
                    if best = [] then Inl NoSuitableStorage
                    else allocateNew h st w sid spt pathType ts
                           (SetPathByType out fileType best,
                            SetPathByType storageIDs fileType bestID,
                            allocate XOR fileType)))"

definition AcquireSector ::
  "('w, 's) Host \<Rightarrow> ('w, 's, 'p) Local \<Rightarrow> 'w \<Rightarrow> 's \<Rightarrow> 'p \<Rightarrow> SectorFileType \<Rightarrow> SectorFileType \<Rightarrow>
   PathType \<Rightarrow> AcquireMode \<Rightarrow> error + (SectorPaths \<times> SectorPaths)" where
  "AcquireSector h st w sid spt existing allocate pathType op =
     (if (existing OR allocate) \<noteq> (existing XOR allocate) then Inl ConflictingFileTypeRequest
      else case findExisting h st w sid PathTypes (emptyPaths, emptyPaths, existing) of
             (out, storageIDs, existing') \<Rightarrow>
               (case allocateNew h st w sid spt pathType PathTypes (out, storageIDs, allocate) of
                  Inl e \<Rightarrow> Inl e
                | Inr (out', storageIDs', allocate') \<Rightarrow> Inr (out', storageIDs')))"

section \<open>Effects\<close>

text \<open>
  Every mutation of the index or of the disk that an operation performs is appended to a
  log, with the error it returned (\<open>None\<close> is \<open>nil\<close>). The state of an operation is
  the state of the collaborators together with the log.
\<close>

datatype 's event =
    EvDropSector ID 's SectorFileType "string option" \<comment> \<open>\<open>index.StorageDropSector\<close>\<close>
  | EvRemoveAll string "string option" \<comment> \<open>\<open>os.RemoveAll\<close>\<close>
  | EvMove string string "string option" \<comment> \<open>\<open>move\<close>\<close>
  | EvDeclareSector ID 's SectorFileType bool "string option" \<comment> \<open>\<open>index.StorageDeclareSector\<close>\<close>

section \<open>Remove and RemoveCopies\<close>

text \<open>\<open>bits.OnesCount(uint(typ))\<close>: the number of bits that are set.\<close>

definition OnesCount :: "64 word \<Rightarrow> nat" where
  "OnesCount x = length (filter (bit x) [0..<64])"

definition removeSector ::
  "('w, 's) Host \<Rightarrow> ('w, 's, 'p) Local \<Rightarrow> 's \<Rightarrow> SectorFileType \<Rightarrow> ID \<Rightarrow>
   'w \<times> 's event list \<Rightarrow> error option \<times> ('w \<times> 's event list)" where
  "removeSector h st sid typ storage s =
     (case s of (w, tr) \<Rightarrow>
        (case paths st storage of
           None \<Rightarrow> (None, (w, tr))
         | Some p \<Rightarrow>
             if local p = [] then (None, (w, tr))
             else (case StorageDropSector (index st) w storage sid typ of
                     (Some err, w1) \<Rightarrow>
                       (Some (DropSectorFailed err),
                        (w1, tr @ [EvDropSector storage sid typ (Some err)]))
                   | (None, w1) \<Rightarrow>
                       (let spath = Join [local p, String h typ, SectorName h sid]
                        in case RemoveAll h w1 spath of
                             (r, w2) \<Rightarrow>
                               (None,
                                (w2, tr @ [EvDropSector storage sid typ None,
                                           EvRemoveAll spath r]))))))"

text \<open>The loop of \<open>Remove\<close> over the holders; the first error returns.\<close>

fun removeHolders ::
  "('w, 's) Host \<Rightarrow> ('w, 's, 'p) Local \<Rightarrow> 's \<Rightarrow> SectorFileType \<Rightarrow> SectorStorageInfo list \<Rightarrow>
   'w \<times> 's event list \<Rightarrow> error option \<times> ('w \<times> 's event list)" where
  "removeHolders h st sid typ [] s = (None, s)"
| "removeHolders h st sid typ (info # si) s =
     (case removeSector h st sid typ (ID info) s of
        (Some err, s') \<Rightarrow> (Some err, s')
      | (None, s') \<Rightarrow> removeHolders h st sid typ si s')"

definition Remove ::
  "('w, 's) Host \<Rightarrow> ('w, 's, 'p) Local \<Rightarrow> 's \<Rightarrow> SectorFileType \<Rightarrow> bool \<Rightarrow>
   'w \<times> 's event list \<Rightarrow> error option \<times> ('w \<times> 's event list)" where
  "Remove h st sid typ force s =
     (case s of (w, tr) \<Rightarrow>
        if OnesCount typ \<noteq> 1 then (Some SingleFileTypeRequired, s)
        else (case StorageFindSector (index st) w sid typ False of
                Inl err \<Rightarrow> (Some (FindSectorFailed err), s)
              | Inr si \<Rightarrow>
                  if length si = 0 \<and> \<not> force then (Some SectorNotFound, s)
                  else removeHolders h st sid typ si s))"

text \<open>The first loop of \<open>RemoveCopies\<close>: is any holder primary?\<close>

fun hasPrimary :: "SectorStorageInfo list \<Rightarrow> bool" where
  "hasPrimary [] = False"
| "hasPrimary (info # si) = (if Primary info then True else hasPrimary si)"

text \<open>The second loop of \<open>RemoveCopies\<close>: primary holders are passed over.\<close>

fun removeNonPrimary ::
  "('w, 's) Host \<Rightarrow> ('w, 's, 'p) Local \<Rightarrow> 's \<Rightarrow> SectorFileType \<Rightarrow> SectorStorageInfo list \<Rightarrow>
   'w \<times> 's event list \<Rightarrow> error option \<times> ('w \<times> 's event list)" where
  "removeNonPrimary h st sid typ [] s = (None, s)"
| "removeNonPrimary h st sid typ (info # si) s =
     (if Primary info then removeNonPrimary h st sid typ si s
      else (case removeSector h st sid typ (ID info) s of
              (Some err, s') \<Rightarrow> (Some err, s')
            | (None, s') \<Rightarrow> removeNonPrimary h st sid typ si s'))"

definition RemoveCopies ::
  "('w, 's) Host \<Rightarrow> ('w, 's, 'p) Local \<Rightarrow> 's \<Rightarrow> SectorFileType \<Rightarrow>
   'w \<times> 's event list \<Rightarrow> error option \<times> ('w \<times> 's event list)" where
  "RemoveCopies h st sid typ s =
     (case s of (w, tr) \<Rightarrow>
        if OnesCount typ \<noteq> 1 then (Some SingleFileTypeRequired, s)
        else (case StorageFindSector (index st) w sid typ False of
                Inl err \<Rightarrow> (Some (FindSectorFailed err), s)
              | Inr si \<Rightarrow>
                  if \<not> hasPrimary si then (None, s)
                  else removeNonPrimary h st sid typ si s))"

section \<open>MoveStorage\<close>




section \<open>The sleep interval of reportHealth\<close>

text \<open>
  \<open>time.Duration\<close> is a signed 64-bit count of nanoseconds: multiplication and addition
  wrap around, division truncates towards zero. \<open>HeartbeatInterval\<close> is a variable of
  the package that local.go does not define; \<open>r\<close> is the value of
  \<open>rand.Int63n(10_000)\<close>.
\<close>

definition wrap64 :: "int \<Rightarrow> int" where
  "wrap64 x = (x + 2 ^ 63) mod 2 ^ 64 - 2 ^ 63"

definition reportHealthInterval :: "int \<Rightarrow> int \<Rightarrow> int" where
  "reportHealthInterval HeartbeatInterval r =
     wrap64 (wrap64 (HeartbeatInterval * 100000) + r) sdiv 100000"

declare Join.simps [simp del]

section \<open>Vocabulary of the properties\<close>

text \<open>
  A storage identifier is registered when the path table has it with a non-empty mount
  root (the two guards \<open>!ok\<close> and \<open>p.local == ""\<close>).
\<close>

definition registered :: "('w, 's, 'p) Local \<Rightarrow> ID \<Rightarrow> bool" where
  "registered st i = (case paths st i of None \<Rightarrow> False | Some p \<Rightarrow> local p \<noteq> [])"

text \<open>The capability that a path type requires of a candidate.\<close>

definition capable :: "PathType \<Rightarrow> 'a StorageInfo_scheme \<Rightarrow> bool" where
  "capable pathType si =
     ((pathType = PathSealing \<longrightarrow> CanSeal si) \<and> (pathType = PathStorage \<longrightarrow> CanStore si))"

text \<open>The file of a sector under the mount root of a storage identifier.\<close>

definition sectorPath ::
  "('w, 's) Host \<Rightarrow> ('w, 's, 'p) Local \<Rightarrow> 's \<Rightarrow> SectorFileType \<Rightarrow> ID \<Rightarrow> string" where
  "sectorPath h st sid fileType i =
     (case paths st i of
        None \<Rightarrow> []
      | Some p \<Rightarrow> Join [local p, String h fileType, SectorName h sid])"

text \<open>The candidates of an allocation that pass the filter, in the order of the index.\<close>

definition survivors ::
  "('w, 's, 'p) Local \<Rightarrow> PathType \<Rightarrow> StorageInfo list \<Rightarrow> StorageInfo list" where
  "survivors st pathType sis = filter (\<lambda>si. registered st (ID si) \<and> capable pathType si) sis"

text \<open>The first holder, in the order of the index, that is registered.\<close>

definition firstUsable ::
  "('w, 's, 'p) Local \<Rightarrow> SectorStorageInfo list \<Rightarrow> SectorStorageInfo option" where
  "firstUsable st si = find (\<lambda>info. registered st (ID info)) si"

text \<open>
  The holder that the first loop records for a file type: none when the bit is not in
  \<open>existing\<close>, when the index fails, or when no holder is registered.
\<close>

definition existingHit ::
  "('w, 's, 'p) Local \<Rightarrow> 'w \<Rightarrow> 's \<Rightarrow> SectorFileType \<Rightarrow> SectorFileType \<Rightarrow> SectorStorageInfo option" where
  "existingHit st w sid existing fileType =
     (if fileType AND existing = 0 then None
      else case StorageFindSector (index st) w sid fileType False of
             Inl err \<Rightarrow> None
           | Inr si \<Rightarrow> firstUsable st si)"

text \<open>
  The log of removing holders one after the other: for each storage identifier the
  successful drop of the triple from the index, then the removal of the file with whatever
  result \<open>r\<close> it had.
\<close>

definition removalLog ::
  "('w, 's) Host \<Rightarrow> ('w, 's, 'p) Local \<Rightarrow> 's \<Rightarrow> SectorFileType \<Rightarrow> (ID \<times> string option) list \<Rightarrow>
   's event list" where
  "removalLog h st sid typ pairs =
     concat (map (\<lambda>(i, r). [EvDropSector i sid typ None,
                              EvRemoveAll (sectorPath h st sid typ i) r]) pairs)"

text \<open>
  The log of completed moves: for each the source identifier, the two paths, the
  destination identifier and the file type.
\<close>

definition moveLog :: "'s \<Rightarrow> (ID \<times> string \<times> string \<times> ID \<times> SectorFileType) list \<Rightarrow> 's event list" where
  "moveLog s moves =
     concat (map (\<lambda>(i, a, b, j, t). [EvDropSector i s t None, EvMove a b None,
                                       EvDeclareSector j s t True None]) moves)"


section \<open>A small deployment\<close>

text \<open>
  Three registered paths, one registered with an empty mount root, and an index that also
  knows a storage \<open>s4\<close> of another machine. The state of the collaborators is the number
  of mutations performed so far; sector identifiers are already their names; the index
  knows no proof type \<open>0\<close>, has no holder of sector \<open>s-t01-9\<close> and refuses to drop
  anything from \<open>s3\<close>.
\<close>

definition s1 :: StorageInfo where
  "s1 = \<lparr>ID = ''s1'', URLs = [], Weight = 10, CanSeal = True, CanStore = False\<rparr>"

definition s2 :: StorageInfo where
  "s2 = \<lparr>ID = ''s2'', URLs = [], Weight = 10, CanSeal = False, CanStore = True\<rparr>"

definition s3 :: StorageInfo where
  "s3 = \<lparr>ID = ''s3'', URLs = [], Weight = 0, CanSeal = True, CanStore = True\<rparr>"

definition s4 :: StorageInfo where
  "s4 = \<lparr>ID = ''s4'', URLs = [], Weight = 10, CanSeal = True, CanStore = True\<rparr>"

definition s5 :: StorageInfo where
  "s5 = \<lparr>ID = ''s5'', URLs = [], Weight = 10, CanSeal = True, CanStore = True\<rparr>"

definition holder :: "StorageInfo \<Rightarrow> bool \<Rightarrow> SectorStorageInfo" where
  "holder si prim = StorageInfo.extend si (SectorStorageInfo.fields prim)"

definition demoPaths :: "ID \<rightharpoonup> path" where
  "demoPaths =
     [''s1'' \<mapsto> \<lparr>local = ''/p1''\<rparr>, ''s2'' \<mapsto> \<lparr>local = ''/p2''\<rparr>,
      ''s3'' \<mapsto> \<lparr>local = ''/p3''\<rparr>, ''s5'' \<mapsto> \<lparr>local = []\<rparr>]"

definition demoIndex :: "(nat, string, nat) SectorIndex" where
  "demoIndex =
     \<lparr>StorageFindSector = (\<lambda>w sid fileType strict.
          if sid = ''s-t01-9'' then Inr []
          else if sid = ''s-t01-6'' then Inr [holder s3 True]
          else if sid = ''s-t01-8'' then Inr [holder s2 False, holder s3 False, holder s1 True]
          else if fileType = FTCache then Inl ''index unreachable''
          else if fileType = FTSealed then Inr [holder s4 False, holder s5 False, holder s1 True,
                                                holder s2 False]
          else if fileType = FTUnsealed then Inr [holder s4 False]
          else Inr []),
       StorageBestAlloc = (\<lambda>w fileType spt pathType.
          if spt = 0 then Inl ''unknown proof type''
          else if fileType = FTSealed then Inr [s1, s3, s2, s4]
          else if fileType = FTUnsealed then Inr [s4, s1, s5, s2]
          else if fileType = FTCache then Inr [s4, s5]
          else Inl ''no such file type''),
       StorageInfoOf = (\<lambda>w i.
          if i = ''s1'' then Inr s1 else if i = ''s2'' then Inr s2
          else if i = ''s3'' then Inr s3 else Inl ''storage not found''),
       StorageDropSector = (\<lambda>w i sid fileType.
          (if i = ''s3'' then Some ''index refused'' else None, Suc w)),
       StorageDeclareSector = (\<lambda>w i sid fileType prim. (None, Suc w))\<rparr>"

text \<open>A disk on which nothing below \<open>/p1\<close> can be removed.\<close>

definition demoHost :: "(nat, string) Host" where
  "demoHost =
     \<lparr>SectorName = (\<lambda>sid. sid), unknownTypeName = (\<lambda>t. ''unknown''),
      RemoveAll = (\<lambda>w p. (if take 4 p = ''/p1/'' then Some ''device busy'' else None, Suc w)),
      move = (\<lambda>w a b. (None, Suc w))\<rparr>"

definition demoLocal :: "(nat, string, nat) Local" where
  "demoLocal = \<lparr>index = demoIndex, paths = demoPaths\<rparr>"

section \<open>Facts about the file types and the bit operations\<close>

lemma PathTypes_cases: "t \<in> set PathTypes \<longleftrightarrow> t = FTUnsealed \<or> t = FTSealed \<or> t = FTCache"
  by (auto simp: PathTypes_def)

lemma FT_distinct:
  "FTUnsealed \<noteq> FTSealed" "FTUnsealed \<noteq> FTCache" "FTSealed \<noteq> FTCache"
  "FTSealed \<noteq> FTUnsealed" "FTCache \<noteq> FTUnsealed" "FTCache \<noteq> FTSealed"
  by (simp_all add: FTUnsealed_def FTSealed_def FTCache_def)

lemma PathTypes_distinct: "distinct PathTypes"
  by (simp add: PathTypes_def FT_distinct)

lemma FT_disjoint:
  "t \<in> set PathTypes \<Longrightarrow> ft \<in> set PathTypes \<Longrightarrow> t \<noteq> ft \<Longrightarrow> ft AND t = 0"
  by (auto simp: PathTypes_cases FTUnsealed_def FTSealed_def FTCache_def)

lemma disjoint_imp_or_eq_xor:
  fixes a b :: "64 word"
  assumes z: "a AND b = 0"
  shows "a OR b = a XOR b"
proof (rule bit_eqI)
  fix n
  have "\<not> bit (a AND b) n" using z by simp
  then show "bit (a OR b) n = bit (a XOR b) n"
    by (auto simp: bit_and_iff bit_or_iff bit_xor_iff)
qed

lemma or_eq_xor_imp_disjoint:
  fixes a b :: "64 word"
  assumes e: "a OR b = a XOR b"
  shows "a AND b = 0"
proof (rule bit_eqI)
  fix n
  have "bit (a OR b) n = bit (a XOR b) n" using e by simp
  then show "bit (a AND b) n = bit (0 :: 64 word) n"
    by (auto simp: bit_and_iff bit_or_iff bit_xor_iff)
qed

lemma overlap_iff: "((a OR b) \<noteq> (a XOR b)) \<longleftrightarrow> a AND b \<noteq> (0 :: 64 word)"
  using disjoint_imp_or_eq_xor or_eq_xor_imp_disjoint by blast

lemma and_xor_other:
  fixes x t ft :: "64 word"
  assumes "ft AND t = 0"
  shows "ft AND (x XOR t) = ft AND x"
proof (rule bit_eqI)
  fix n
  have "\<not> bit (ft AND t) n" using assms by simp
  then show "bit (ft AND (x XOR t)) n = bit (ft AND x) n"
    by (auto simp: bit_and_iff bit_xor_iff)
qed

lemma PathByType_Set:
  "t \<in> set PathTypes \<Longrightarrow>
   PathByType (SetPathByType sps t p) ft = (if ft = t then p else PathByType sps ft)"
  by (auto simp: PathTypes_cases PathByType_def SetPathByType_def FT_distinct)

lemma PathByType_empty: "PathByType emptyPaths ft = []"
  by (simp add: PathByType_def emptyPaths_def)

section \<open>The two inner loops of AcquireSector in closed form\<close>

lemma Clean_nonempty: "Clean p \<noteq> []"
  by (simp add: Clean_def Let_def)

lemma Join_nonempty: "e \<noteq> [] \<Longrightarrow> Join (e # es) \<noteq> []"
  by (simp add: Join.simps Clean_nonempty)

lemma sectorPath_nonempty: "registered st i \<Longrightarrow> sectorPath h st sid ft i \<noteq> []"
  by (auto simp: registered_def sectorPath_def Join_nonempty split: option.splits)

lemma pickBest_step:
  "pickBest h st sid ft pt (si # sis) (b, i) =
     (if registered st (ID si) \<and> capable pt si
      then pickBest h st sid ft pt sis (sectorPath h st sid ft (ID si), ID si)
      else pickBest h st sid ft pt sis (b, i))"
  by (simp add: registered_def capable_def sectorPath_def PathSealing_def PathStorage_def
        split: option.splits)

lemma pickBest_eq:
  "pickBest h st sid ft pt sis (b, i) =
     (if survivors st pt sis = [] then (b, i)
      else (sectorPath h st sid ft (ID (last (survivors st pt sis))),
            ID (last (survivors st pt sis))))"
proof (induction sis arbitrary: b i)
  case Nil
  then show ?case by (simp add: survivors_def)
next
  case (Cons si sis)
  show ?case
    by (simp only: pickBest_step Cons.IH) (simp add: survivors_def)
qed

lemma last_survivors:
  "survivors st pt sis \<noteq> [] \<Longrightarrow>
   last (survivors st pt sis) \<in> set sis \<and>
   registered st (ID (last (survivors st pt sis))) \<and> capable pt (last (survivors st pt sis))"
proof -
  assume ne: "survivors st pt sis \<noteq> []"
  then have "last (survivors st pt sis) \<in> set (survivors st pt sis)" by (rule last_in_set)
  then show ?thesis by (simp add: survivors_def)
qed

lemma scanExisting_step:
  "scanExisting h st sid ft (info # si) (out, ids, ex) =
     (if registered st (ID info)
      then (SetPathByType out ft (sectorPath h st sid ft (ID info)),
            SetPathByType ids ft (ID info), ex XOR ft)
      else scanExisting h st sid ft si (out, ids, ex))"
  by (simp add: registered_def sectorPath_def split: option.splits)

lemma scanExisting_eq:
  "scanExisting h st sid ft si (out, ids, ex) =
     (case firstUsable st si of
        None \<Rightarrow> (out, ids, ex)
      | Some info \<Rightarrow> (SetPathByType out ft (sectorPath h st sid ft (ID info)),
                      SetPathByType ids ft (ID info), ex XOR ft))"
proof (induction si)
  case Nil
  show ?case by (simp add: firstUsable_def)
next
  case (Cons info si)
  show ?case by (simp only: scanExisting_step Cons.IH) (simp add: firstUsable_def)
qed

section \<open>The two outer loops of AcquireSector\<close>

lemma findExisting_step:
  "findExisting h st w sid (ft # ts) (out, ids, ex) =
     findExisting h st w sid ts
       (case existingHit st w sid ex ft of
          None \<Rightarrow> (out, ids, ex)
        | Some info \<Rightarrow> (SetPathByType out ft (sectorPath h st sid ft (ID info)),
                        SetPathByType ids ft (ID info), ex XOR ft))"
  by (simp add: existingHit_def scanExisting_eq split: sum.splits option.splits)

lemma existingHit_xor:
  "t \<in> set PathTypes \<Longrightarrow> ft \<in> set PathTypes \<Longrightarrow> t \<noteq> ft \<Longrightarrow>
   existingHit st w sid (ex XOR t) ft = existingHit st w sid ex ft"
  by (simp add: existingHit_def and_xor_other [OF FT_disjoint])

lemma findExisting_entry:
  assumes "distinct ts" "set ts \<subseteq> set PathTypes" "ft \<in> set PathTypes"
    and "findExisting h st w sid ts (out, ids, ex) = (out', ids', ex')"
  shows "PathByType out' ft =
           (if ft \<in> set ts
            then (case existingHit st w sid ex ft of
                    None \<Rightarrow> PathByType out ft
                  | Some info \<Rightarrow> sectorPath h st sid ft (ID info))
            else PathByType out ft) \<and>
         PathByType ids' ft =
           (if ft \<in> set ts
            then (case existingHit st w sid ex ft of
                    None \<Rightarrow> PathByType ids ft
                  | Some info \<Rightarrow> ID info)
            else PathByType ids ft)"
  using assms
proof (induction ts arbitrary: out ids ex)
  case Nil
  then show ?case by simp
next
  case (Cons t ts)
  have t: "t \<in> set PathTypes" and d: "distinct ts" and s: "set ts \<subseteq> set PathTypes"
    and nt: "t \<notin> set ts"
    using Cons.prems by auto
  show ?case
  proof (cases "existingHit st w sid ex t")
    case None
    then have run: "findExisting h st w sid ts (out, ids, ex) = (out', ids', ex')"
      using Cons.prems(4) by (simp only: findExisting_step) simp
    show ?thesis
      using Cons.IH [OF d s Cons.prems(3) run] None nt by auto
  next
    case (Some info)
    then have run: "findExisting h st w sid ts
        (SetPathByType out t (sectorPath h st sid t (ID info)),
         SetPathByType ids t (ID info), ex XOR t) = (out', ids', ex')"
      using Cons.prems(4) by (simp only: findExisting_step) simp
    show ?thesis
    proof (cases "ft = t")
      case True
      then show ?thesis
        using Cons.IH [OF d s Cons.prems(3) run] Some nt t
        by (auto simp: PathByType_Set split: option.splits)
    next
      case False
      then show ?thesis
        using Cons.IH [OF d s Cons.prems(3) run] t Cons.prems(3)
        by (auto simp: PathByType_Set existingHit_xor split: option.splits)
    qed
  qed
qed

lemma allocateNew_step:
  "allocateNew h st w sid spt pt (ft # ts) (out, ids, al) =
     (if ft AND al = 0 then allocateNew h st w sid spt pt ts (out, ids, al)
      else case StorageBestAlloc (index st) w ft spt pt of
             Inl err \<Rightarrow> Inl (BestAllocFailed err)
           | Inr sis \<Rightarrow>
               if survivors st pt sis = [] then Inl NoSuitableStorage
               else allocateNew h st w sid spt pt ts
                      (SetPathByType out ft (sectorPath h st sid ft (ID (last (survivors st pt sis)))),
                       SetPathByType ids ft (ID (last (survivors st pt sis))),
                       al XOR ft))"
  by (simp add: pickBest_eq sectorPath_nonempty last_survivors split: sum.splits)

lemma allocateNew_entry:
  assumes "distinct ts" "set ts \<subseteq> set PathTypes" "ft \<in> set PathTypes"
    and "allocateNew h st w sid spt pt ts (out, ids, al) = Inr (out', ids', al')"
  shows "(ft \<in> set ts \<and> ft AND al \<noteq> 0 \<longrightarrow>
            (\<exists>sis. StorageBestAlloc (index st) w ft spt pt = Inr sis \<and>
                   survivors st pt sis \<noteq> [] \<and>
                   PathByType out' ft = sectorPath h st sid ft (ID (last (survivors st pt sis))) \<and>
                   PathByType ids' ft = ID (last (survivors st pt sis)))) \<and>
         (\<not> (ft \<in> set ts \<and> ft AND al \<noteq> 0) \<longrightarrow>
            PathByType out' ft = PathByType out ft \<and> PathByType ids' ft = PathByType ids ft)"
  using assms
proof (induction ts arbitrary: out ids al)
  case Nil
  then show ?case by simp
next
  case (Cons t ts)
  have t: "t \<in> set PathTypes" and d: "distinct ts" and s: "set ts \<subseteq> set PathTypes"
    and nt: "t \<notin> set ts"
    using Cons.prems by auto
  show ?case
  proof (cases "t AND al = 0")
    case True
    then have run: "allocateNew h st w sid spt pt ts (out, ids, al) = Inr (out', ids', al')"
      using Cons.prems(4) by (simp only: allocateNew_step) simp
    show ?thesis
      using Cons.IH [OF d s Cons.prems(3) run] True nt by auto
  next
    case False
    obtain sis where sis: "StorageBestAlloc (index st) w t spt pt = Inr sis"
      and ne: "survivors st pt sis \<noteq> []"
      and run: "allocateNew h st w sid spt pt ts
        (SetPathByType out t (sectorPath h st sid t (ID (last (survivors st pt sis)))),
         SetPathByType ids t (ID (last (survivors st pt sis))), al XOR t) = Inr (out', ids', al')"
      using Cons.prems(4) False
      by (simp only: allocateNew_step) (auto split: sum.splits if_splits)
    show ?thesis
    proof (cases "ft = t")
      case True
      then show ?thesis
        using Cons.IH [OF d s Cons.prems(3) run] nt t sis ne False
        by (auto simp: PathByType_Set)
    next
      case False
      have "ft AND (al XOR t) = ft AND al"
        by (rule and_xor_other [OF FT_disjoint [OF t Cons.prems(3)]]) (use False in simp)
      then show ?thesis
        using Cons.IH [OF d s Cons.prems(3) run] t False
        by (auto simp: PathByType_Set)
    qed
  qed
qed

lemma allocateNew_succeeds:
  assumes "distinct ts" "set ts \<subseteq> set PathTypes"
    and "\<forall>t \<in> set ts. t AND al \<noteq> 0 \<longrightarrow>
           (\<exists>sis. StorageBestAlloc (index st) w t spt pt = Inr sis \<and> survivors st pt sis \<noteq> [])"
  shows "\<exists>r. allocateNew h st w sid spt pt ts (out, ids, al) = Inr r"
  using assms
proof (induction ts arbitrary: out ids al)
  case Nil
  then show ?case by simp
next
  case (Cons t ts)
  have t: "t \<in> set PathTypes" and d: "distinct ts" and s: "set ts \<subseteq> set PathTypes"
    and nt: "t \<notin> set ts"
    using Cons.prems by auto
  show ?case
  proof (cases "t AND al = 0")
    case True
    have "\<exists>r. allocateNew h st w sid spt pt ts (out, ids, al) = Inr r"
      using Cons.IH [OF d s] Cons.prems(3) by simp
    then show ?thesis using True by (simp only: allocateNew_step) simp
  next
    case False
    obtain sis where sis: "StorageBestAlloc (index st) w t spt pt = Inr sis"
      and ne: "survivors st pt sis \<noteq> []"
      using Cons.prems(3) False by auto
    have keep: "\<forall>u \<in> set ts. u AND (al XOR t) \<noteq> 0 \<longrightarrow>
           (\<exists>sis. StorageBestAlloc (index st) w u spt pt = Inr sis \<and> survivors st pt sis \<noteq> [])"
    proof
      fix u assume u: "u \<in> set ts"
      then have "u \<in> set PathTypes" "u \<noteq> t" using s nt by auto
      then have "u AND (al XOR t) = u AND al"
        using and_xor_other [OF FT_disjoint [OF t]] by simp
      then show "u AND (al XOR t) \<noteq> 0 \<longrightarrow>
           (\<exists>sis. StorageBestAlloc (index st) w u spt pt = Inr sis \<and> survivors st pt sis \<noteq> [])"
        using Cons.prems(3) u by simp
    qed
    show ?thesis
      using Cons.IH [OF d s keep] False sis ne by (simp only: allocateNew_step) simp
  qed
qed

lemma allocateNew_NoSuitable:
  assumes "distinct ts" "set ts \<subseteq> set PathTypes" "ft \<in> set ts" "ft AND al \<noteq> 0"
    and "StorageBestAlloc (index st) w ft spt pt = Inr sis" "survivors st pt sis = []"
    and "\<forall>t \<in> set (takeWhile (\<lambda>t. t \<noteq> ft) ts). t AND al \<noteq> 0 \<longrightarrow>
           (\<exists>c. StorageBestAlloc (index st) w t spt pt = Inr c)"
  shows "allocateNew h st w sid spt pt ts (out, ids, al) = Inl NoSuitableStorage"
  using assms
proof (induction ts arbitrary: out ids al)
  case Nil
  then show ?case by simp
next
  case (Cons t ts)
  have t: "t \<in> set PathTypes" and d: "distinct ts" and s: "set ts \<subseteq> set PathTypes"
    and nt: "t \<notin> set ts"
    using Cons.prems by auto
  show ?case
  proof (cases "t = ft")
    case True
    then show ?thesis
      using Cons.prems by (simp only: allocateNew_step) simp
  next
    case False
    then have ft: "ft \<in> set ts" using Cons.prems(3) by simp
    have ftP: "ft \<in> set PathTypes" using ft s by auto
    have early: "\<forall>u \<in> set (takeWhile (\<lambda>t. t \<noteq> ft) ts). u AND al \<noteq> 0 \<longrightarrow>
           (\<exists>c. StorageBestAlloc (index st) w u spt pt = Inr c)"
      using Cons.prems(7) False by simp
    have tok: "t AND al \<noteq> 0 \<longrightarrow> (\<exists>c. StorageBestAlloc (index st) w t spt pt = Inr c)"
      using Cons.prems(7) False by simp
    show ?thesis
    proof (cases "t AND al = 0")
      case True
      then show ?thesis
        using Cons.IH [OF d s ft Cons.prems(4) Cons.prems(5) Cons.prems(6) early]
        by (simp only: allocateNew_step) simp
    next
      case nz: False
      then obtain c where c: "StorageBestAlloc (index st) w t spt pt = Inr c" using tok by auto
      have x: "\<And>u. u \<in> set ts \<Longrightarrow> u AND (al XOR t) = u AND al"
      proof -
        fix u assume "u \<in> set ts"
        then have "u \<in> set PathTypes" "u \<noteq> t" using s nt by auto
        then show "u AND (al XOR t) = u AND al"
          using and_xor_other [OF FT_disjoint [OF t]] by simp
      qed
      have ft': "ft AND (al XOR t) \<noteq> 0" using x [OF ft] Cons.prems(4) by simp
      have early': "\<forall>u \<in> set (takeWhile (\<lambda>t. t \<noteq> ft) ts). u AND (al XOR t) \<noteq> 0 \<longrightarrow>
           (\<exists>c. StorageBestAlloc (index st) w u spt pt = Inr c)"
        using early x by (metis set_takeWhileD)
      show ?thesis
        using Cons.IH [OF d s ft ft' Cons.prems(5) Cons.prems(6) early'] nz c
        by (simp only: allocateNew_step) simp
    qed
  qed
qed

lemma allocateNew_index_error:
  assumes "distinct ts" "set ts \<subseteq> set PathTypes" "ft \<in> set ts" "ft AND al \<noteq> 0"
    and "StorageBestAlloc (index st) w ft spt pt = Inl err"
  shows "\<exists>e. allocateNew h st w sid spt pt ts (out, ids, al) = Inl e"
  using assms
proof (induction ts arbitrary: out ids al)
  case Nil
  then show ?case by simp
next
  case (Cons t ts)
  have t: "t \<in> set PathTypes" and d: "distinct ts" and s: "set ts \<subseteq> set PathTypes"
    and nt: "t \<notin> set ts"
    using Cons.prems by auto
  show ?case
  proof (cases "t = ft")
    case True
    then show ?thesis
      using Cons.prems by (simp only: allocateNew_step) simp
  next
    case False
    then have ft: "ft \<in> set ts" using Cons.prems(3) by simp
    have "ft \<in> set PathTypes" "ft \<noteq> t" using ft s False by auto
    then have "ft AND (al XOR t) = ft AND al"
      using and_xor_other [OF FT_disjoint [OF t]] by simp
    then have ft': "ft AND (al XOR t) \<noteq> 0" using Cons.prems(4) by simp
    show ?thesis
      using Cons.IH [OF d s ft Cons.prems(4) Cons.prems(5)]
            Cons.IH [OF d s ft ft' Cons.prems(5)]
      by (simp only: allocateNew_step) (simp split: sum.splits)
  qed
qed

lemma allocateNew_error_indep:
  "allocateNew h st w sid spt pt ts (out, ids, al) = Inl e \<longleftrightarrow>
   allocateNew h st w sid spt pt ts (out2, ids2, al) = Inl e"
proof (induction ts arbitrary: out ids out2 ids2 al)
  case Nil
  show ?case by simp
next
  case (Cons t ts)
  show ?case
    by (simp only: allocateNew_step) (simp split: sum.splits add: Cons.IH [of _ _ _ _ _])
qed

lemma allocateNew_not_conflict:
  "allocateNew h st w sid spt pt ts (out, ids, al) \<noteq> Inl ConflictingFileTypeRequest"
proof (induction ts arbitrary: out ids al)
  case Nil
  show ?case by simp
next
  case (Cons t ts)
  show ?case
    by (simp only: allocateNew_step) (simp split: sum.splits add: Cons.IH)
qed

section \<open>AcquireSector as a whole\<close>

lemma bit_FT:
  "bit FTUnsealed n \<longleftrightarrow> n = 0" "bit FTSealed n \<longleftrightarrow> n = 1" "bit FTCache n \<longleftrightarrow> n = 2"
  by (auto simp: FTUnsealed_def FTSealed_def FTCache_def bit_numeral_rec bit_1_iff
        split: nat.splits)

lemma single_bit_disjoint:
  fixes ft e a :: "64 word"
  assumes one: "\<And>n. bit ft n \<longleftrightarrow> n = k"
    and hit: "ft AND e \<noteq> 0" and dis: "e AND a = 0"
  shows "ft AND a = 0"
proof (rule bit_eqI)
  fix n
  have ek: "bit e k"
  proof (rule ccontr)
    assume "\<not> bit e k"
    then have "ft AND e = 0"
      by (intro bit_eqI) (auto simp: bit_and_iff one)
    then show False using hit by simp
  qed
  have "\<not> bit (e AND a) k" using dis by simp
  then have "\<not> bit a k" using ek by (simp add: bit_and_iff)
  then show "bit (ft AND a) n = bit (0 :: 64 word) n"
    by (auto simp: bit_and_iff one)
qed

lemma FT_not_in_other:
  assumes "ft \<in> set PathTypes" "ft AND e \<noteq> 0" "e AND a = 0"
  shows "ft AND a = 0"
  using assms(1) single_bit_disjoint [OF _ assms(2) assms(3)]
  by (auto simp: PathTypes_cases bit_FT)

lemma FT_and_None: "ft AND FTNone = 0"
  by (simp add: FTNone_def)

lemma AcquireSector_overlap:
  "existing AND allocate \<noteq> 0 \<Longrightarrow>
   AcquireSector h st w sid spt existing allocate pathType op = Inl ConflictingFileTypeRequest"
  by (simp add: AcquireSector_def overlap_iff)

lemma AcquireSector_disjoint:
  "existing AND allocate = 0 \<Longrightarrow>
   AcquireSector h st w sid spt existing allocate pathType op =
     (case findExisting h st w sid PathTypes (emptyPaths, emptyPaths, existing) of
        (out, storageIDs, existing') \<Rightarrow>
          (case allocateNew h st w sid spt pathType PathTypes (out, storageIDs, allocate) of
             Inl e \<Rightarrow> Inl e
           | Inr (out', storageIDs', allocate') \<Rightarrow> Inr (out', storageIDs')))"
  using overlap_iff [of existing allocate] by (simp add: AcquireSector_def)

lemma AcquireSector_InrD:
  assumes "AcquireSector h st w sid spt existing allocate pathType op = Inr (out, ids)"
  shows "existing AND allocate = 0 \<and>
         (\<exists>out1 ids1 ex1 al'.
            findExisting h st w sid PathTypes (emptyPaths, emptyPaths, existing) = (out1, ids1, ex1) \<and>
            allocateNew h st w sid spt pathType PathTypes (out1, ids1, allocate) = Inr (out, ids, al'))"
proof -
  have dis: "existing AND allocate = 0"
    using assms AcquireSector_overlap [of existing allocate h st w sid spt pathType op]
    by (cases "existing AND allocate = 0") auto
  obtain out1 ids1 ex1 where f:
    "findExisting h st w sid PathTypes (emptyPaths, emptyPaths, existing) = (out1, ids1, ex1)"
    by (cases "findExisting h st w sid PathTypes (emptyPaths, emptyPaths, existing)") auto
  have "\<exists>al'. allocateNew h st w sid spt pathType PathTypes (out1, ids1, allocate) = Inr (out, ids, al')"
    using assms by (simp add: AcquireSector_disjoint [OF dis] f split: sum.splits prod.splits)
  then show ?thesis using dis f by blast
qed

lemma AcquireSector_error_existing:
  assumes "existing AND allocate = 0"
  shows "AcquireSector h st w sid spt existing allocate pathType op = Inl e \<longleftrightarrow>
         AcquireSector h st w sid spt FTNone allocate pathType op = Inl e"
proof -
  obtain out1 ids1 ex1 where f:
    "findExisting h st w sid PathTypes (emptyPaths, emptyPaths, existing) = (out1, ids1, ex1)"
    by (cases "findExisting h st w sid PathTypes (emptyPaths, emptyPaths, existing)") auto
  obtain out2 ids2 ex2 where g:
    "findExisting h st w sid PathTypes (emptyPaths, emptyPaths, FTNone) = (out2, ids2, ex2)"
    by (cases "findExisting h st w sid PathTypes (emptyPaths, emptyPaths, FTNone)") auto
  have z: "FTNone AND allocate = 0" by (simp add: FTNone_def)
  have "AcquireSector h st w sid spt existing allocate pathType op = Inl e \<longleftrightarrow>
        allocateNew h st w sid spt pathType PathTypes (out1, ids1, allocate) = Inl e"
    by (simp add: AcquireSector_disjoint [OF assms] f split: sum.splits prod.splits)
  moreover have "AcquireSector h st w sid spt FTNone allocate pathType op = Inl e \<longleftrightarrow>
        allocateNew h st w sid spt pathType PathTypes (out2, ids2, allocate) = Inl e"
    by (simp add: AcquireSector_disjoint [OF z] g split: sum.splits prod.splits)
  ultimately show ?thesis
    using allocateNew_error_indep [of h st w sid spt pathType PathTypes out1 ids1 allocate e out2 ids2]
    by simp
qed

lemma AcquireSector_succeeds:
  assumes "existing AND allocate = 0"
    and "\<forall>t \<in> set PathTypes. t AND allocate \<noteq> 0 \<longrightarrow>
           (\<exists>c. StorageBestAlloc (index st) w t spt pathType = Inr c \<and> survivors st pathType c \<noteq> [])"
  shows "\<exists>out ids. AcquireSector h st w sid spt existing allocate pathType op = Inr (out, ids)"
proof -
  obtain out1 ids1 ex1 where f:
    "findExisting h st w sid PathTypes (emptyPaths, emptyPaths, existing) = (out1, ids1, ex1)"
    by (cases "findExisting h st w sid PathTypes (emptyPaths, emptyPaths, existing)") auto
  obtain r where "allocateNew h st w sid spt pathType PathTypes (out1, ids1, allocate) = Inr r"
    using allocateNew_succeeds [OF PathTypes_distinct subset_refl assms(2)] by blast
  then show ?thesis
    by (cases r) (simp add: AcquireSector_disjoint [OF assms(1)] f)
qed

lemma allocate_entry_of_result:
  assumes "AcquireSector h st w sid spt existing allocate pathType op = Inr (out, ids)"
    and "ft \<in> set PathTypes" "ft AND allocate \<noteq> 0"
    and "StorageBestAlloc (index st) w ft spt pathType = Inr sis"
  shows "survivors st pathType sis \<noteq> [] \<and>
         PathByType out ft = sectorPath h st sid ft (ID (last (survivors st pathType sis))) \<and>
         PathByType ids ft = ID (last (survivors st pathType sis))"
proof -
  obtain out1 ids1 ex1 al' where
    a: "allocateNew h st w sid spt pathType PathTypes (out1, ids1, allocate) = Inr (out, ids, al')"
    using AcquireSector_InrD [OF assms(1)] by blast
  show ?thesis
    using allocateNew_entry [OF PathTypes_distinct subset_refl assms(2) a] assms(2,3,4) by auto
qed

lemma existing_entry_of_result:
  assumes "AcquireSector h st w sid spt existing allocate pathType op = Inr (out, ids)"
    and "ft \<in> set PathTypes" "ft AND existing \<noteq> 0"
  shows "PathByType out ft =
           (case existingHit st w sid existing ft of
              None \<Rightarrow> [] | Some info \<Rightarrow> sectorPath h st sid ft (ID info)) \<and>
         PathByType ids ft =
           (case existingHit st w sid existing ft of None \<Rightarrow> [] | Some info \<Rightarrow> ID info)"
proof -
  obtain out1 ids1 ex1 al' where dis: "existing AND allocate = 0"
    and f: "findExisting h st w sid PathTypes (emptyPaths, emptyPaths, existing) = (out1, ids1, ex1)"
    and a: "allocateNew h st w sid spt pathType PathTypes (out1, ids1, allocate) = Inr (out, ids, al')"
    using AcquireSector_InrD [OF assms(1)] by blast
  have na: "ft AND allocate = 0" by (rule FT_not_in_other [OF assms(2) assms(3) dis])
  have keep: "PathByType out ft = PathByType out1 ft \<and> PathByType ids ft = PathByType ids1 ft"
    using allocateNew_entry [OF PathTypes_distinct subset_refl assms(2) a] na by simp
  show ?thesis
    using findExisting_entry [OF PathTypes_distinct subset_refl assms(2) f] keep assms(2)
    by (auto simp: PathByType_empty split: option.splits)
qed

lemma firstUsable_Some:
  "firstUsable st si = Some info \<longleftrightarrow>
   (\<exists>pre post. si = pre @ info # post \<and> (\<forall>x \<in> set pre. \<not> registered st (ID x)) \<and>
               registered st (ID info))"
proof (induction si)
  case Nil
  show ?case by (simp add: firstUsable_def)
next
  case (Cons a si)
  show ?case
  proof (cases "registered st (ID a)")
    case True
    have "(\<exists>pre post. a # si = pre @ info # post \<and> (\<forall>x \<in> set pre. \<not> registered st (ID x)) \<and>
               registered st (ID info)) \<longleftrightarrow> a = info"
    proof
      assume "\<exists>pre post. a # si = pre @ info # post \<and> (\<forall>x \<in> set pre. \<not> registered st (ID x)) \<and>
               registered st (ID info)"
      then obtain pre post where e: "a # si = pre @ info # post"
        and n: "\<forall>x \<in> set pre. \<not> registered st (ID x)" by blast
      show "a = info"
      proof (cases pre)
        case Nil
        then show ?thesis using e by simp
      next
        case (Cons b pre')
        then show ?thesis using e n True by simp
      qed
    next
      assume "a = info"
      then have "a # si = [] @ info # si \<and> (\<forall>x \<in> set []. \<not> registered st (ID x)) \<and>
               registered st (ID info)" using True by simp
      then show "\<exists>pre post. a # si = pre @ info # post \<and> (\<forall>x \<in> set pre. \<not> registered st (ID x)) \<and>
               registered st (ID info)" by blast
    qed
    then show ?thesis using True by (simp add: firstUsable_def)
  next
    case False
    have "(\<exists>pre post. a # si = pre @ info # post \<and> (\<forall>x \<in> set pre. \<not> registered st (ID x)) \<and>
               registered st (ID info)) \<longleftrightarrow>
          (\<exists>pre post. si = pre @ info # post \<and> (\<forall>x \<in> set pre. \<not> registered st (ID x)) \<and>
               registered st (ID info))"
    proof
      assume "\<exists>pre post. a # si = pre @ info # post \<and> (\<forall>x \<in> set pre. \<not> registered st (ID x)) \<and>
               registered st (ID info)"
      then obtain pre post where e: "a # si = pre @ info # post"
        and n: "\<forall>x \<in> set pre. \<not> registered st (ID x)" and r: "registered st (ID info)" by blast
      show "\<exists>pre post. si = pre @ info # post \<and> (\<forall>x \<in> set pre. \<not> registered st (ID x)) \<and>
               registered st (ID info)"
      proof (cases pre)
        case Nil
        then show ?thesis using e r False by simp
      next
        case (Cons b pre')
        then have "si = pre' @ info # post \<and> (\<forall>x \<in> set pre'. \<not> registered st (ID x))"
          using e n by simp
        then show ?thesis using r by blast
      qed
    next
      assume "\<exists>pre post. si = pre @ info # post \<and> (\<forall>x \<in> set pre. \<not> registered st (ID x)) \<and>
               registered st (ID info)"
      then obtain pre post where e: "si = pre @ info # post"
        and n: "\<forall>x \<in> set pre. \<not> registered st (ID x)" and r: "registered st (ID info)" by blast
      have "a # si = (a # pre) @ info # post \<and> (\<forall>x \<in> set (a # pre). \<not> registered st (ID x))"
        using e n False by simp
      then show "\<exists>pre post. a # si = pre @ info # post \<and> (\<forall>x \<in> set pre. \<not> registered st (ID x)) \<and>
               registered st (ID info)" using r by blast
    qed
    then show ?thesis using False Cons.IH by (simp add: firstUsable_def)
  qed
qed

lemma firstUsable_None:
  "firstUsable st si = None \<longleftrightarrow> (\<forall>x \<in> set si. \<not> registered st (ID x))"
  by (auto simp: firstUsable_def find_None_iff)

section \<open>Evaluating the small deployment\<close>

lemma FT_simps:
  "FTSealed \<noteq> FTNone" "FTUnsealed \<noteq> FTNone" "FTCache \<noteq> FTNone"
  "FTSealed AND FTSealed = FTSealed" "FTUnsealed AND FTUnsealed = FTUnsealed"
  "FTCache AND FTCache = FTCache"
  "FTUnsealed AND FTSealed = 0" "FTUnsealed AND FTCache = 0" "FTSealed AND FTCache = 0"
  "FTSealed AND FTUnsealed = 0" "FTCache AND FTUnsealed = 0" "FTCache AND FTSealed = 0"
  "FTSealed \<noteq> 0" "FTUnsealed \<noteq> 0" "FTCache \<noteq> 0"
  by (simp_all add: FTNone_def FTUnsealed_def FTSealed_def FTCache_def)

lemma demo_registered:
  "registered demoLocal ''s1''" "registered demoLocal ''s2''" "registered demoLocal ''s3''"
  "\<not> registered demoLocal ''s4''" "\<not> registered demoLocal ''s5''"
  by (simp_all add: registered_def demoLocal_def demoPaths_def)

lemma demo_ids:
  "ID s1 = ''s1''" "ID s2 = ''s2''" "ID s3 = ''s3''" "ID s4 = ''s4''" "ID s5 = ''s5''"
  "ID (holder si prim) = ID si" "Primary (holder si prim) = prim"
  by (simp_all add: s1_def s2_def s3_def s4_def s5_def holder_def StorageInfo.defs
        SectorStorageInfo.defs)

lemma demo_paths:
  "paths demoLocal ''s1'' = Some \<lparr>local = ''/p1''\<rparr>"
  "paths demoLocal ''s2'' = Some \<lparr>local = ''/p2''\<rparr>"
  "paths demoLocal ''s3'' = Some \<lparr>local = ''/p3''\<rparr>"
  "paths demoLocal ''s4'' = None"
  "paths demoLocal ''s5'' = Some \<lparr>local = []\<rparr>"
  by (simp_all add: demoLocal_def demoPaths_def)

lemma demo_Join:
  "Join [''/p1'', ''sealed'', ''s-t01-7''] = ''/p1/sealed/s-t01-7''"
  "Join [''/p2'', ''sealed'', ''s-t01-7''] = ''/p2/sealed/s-t01-7''"
  "Join [''/p3'', ''sealed'', ''s-t01-7''] = ''/p3/sealed/s-t01-7''"
  "Join [''/p2'', ''unsealed'', ''s-t01-7''] = ''/p2/unsealed/s-t01-7''"
  by (simp_all add: Join.simps Clean_def)

lemma demo_sectorPath:
  "sectorPath demoHost demoLocal ''s-t01-7'' FTSealed ''s1'' = ''/p1/sealed/s-t01-7''"
  "sectorPath demoHost demoLocal ''s-t01-7'' FTSealed ''s2'' = ''/p2/sealed/s-t01-7''"
  "sectorPath demoHost demoLocal ''s-t01-7'' FTSealed ''s3'' = ''/p3/sealed/s-t01-7''"
  "sectorPath demoHost demoLocal ''s-t01-7'' FTUnsealed ''s2'' = ''/p2/unsealed/s-t01-7''"
  by (simp_all add: sectorPath_def demo_paths String_def FT_distinct demoHost_def demo_Join)

lemma demo_alloc:
  "StorageBestAlloc (index demoLocal) w FTSealed (Suc 0) pt = Inr [s1, s3, s2, s4]"
  "StorageBestAlloc (index demoLocal) w FTUnsealed (Suc 0) pt = Inr [s4, s1, s5, s2]"
  "StorageBestAlloc (index demoLocal) w FTCache (Suc 0) pt = Inr [s4, s5]"
  "StorageBestAlloc (index demoLocal) w ft 0 pt = Inl ''unknown proof type''"
  by (simp_all add: demoLocal_def demoIndex_def FT_distinct)

lemma demo_find:
  "StorageFindSector (index demoLocal) w ''s-t01-7'' FTCache strict = Inl ''index unreachable''"
  "StorageFindSector (index demoLocal) w ''s-t01-7'' FTSealed strict =
     Inr [holder s4 False, holder s5 False, holder s1 True, holder s2 False]"
  "StorageFindSector (index demoLocal) w ''s-t01-7'' FTUnsealed strict = Inr [holder s4 False]"
  "StorageFindSector (index demoLocal) w ''s-t01-8'' ft strict =
     Inr [holder s2 False, holder s3 False, holder s1 True]"
  "StorageFindSector (index demoLocal) w ''s-t01-9'' ft strict = Inr []"
  "StorageFindSector (index demoLocal) w ''s-t01-6'' ft strict = Inr [holder s3 True]"
  by (simp_all add: demoLocal_def demoIndex_def FT_distinct)

lemma demo_caps:
  "CanSeal s1" "\<not> CanStore s1" "\<not> CanSeal s2" "CanStore s2" "CanSeal s3" "CanStore s3"
  "CanSeal s4" "CanStore s4" "CanSeal s5" "CanStore s5"
  by (simp_all add: s1_def s2_def s3_def s4_def s5_def)

lemma demo_survivors:
  "survivors demoLocal PathSealing [s1, s3, s2, s4] = [s1, s3]"
  "survivors demoLocal PathStorage [s1, s3, s2, s4] = [s3, s2]"
  "survivors demoLocal PathStorage [s4, s1, s5, s2] = [s2]"
  "survivors demoLocal pt [s4, s5] = []"
  by (simp_all add: survivors_def demo_registered demo_ids capable_def demo_caps
        PathSealing_def PathStorage_def)

lemma demo_takeWhile:
  "takeWhile (\<lambda>t. t \<noteq> FTCache) PathTypes = [FTUnsealed, FTSealed]"
  "takeWhile (\<lambda>t. t \<noteq> FTSealed) PathTypes = [FTUnsealed]"
  "takeWhile (\<lambda>t. t \<noteq> FTUnsealed) PathTypes = []"
  by (simp_all add: PathTypes_def FT_distinct)

section \<open>Properties of AcquireSector\<close>

text \<open>
  Claim C2. Whenever the two sets of file types share a bit, \<open>AcquireSector\<close> returns the
  error "can't both find and allocate a sector", whatever the index and the path table
  hold: neither is consulted. Whenever the two sets are disjoint, that error is not the
  result.
\<close>

theorem AcquireSector_conflict:
  "(existing AND allocate \<noteq> 0 \<longrightarrow>
      AcquireSector h st w sid spt existing allocate pathType op = Inl ConflictingFileTypeRequest) \<and>
   (existing AND allocate = 0 \<longrightarrow>
      AcquireSector h st w sid spt existing allocate pathType op \<noteq> Inl ConflictingFileTypeRequest)"
proof (intro conjI impI)
  assume "existing AND allocate \<noteq> 0"
  then show "AcquireSector h st w sid spt existing allocate pathType op = Inl ConflictingFileTypeRequest"
    by (rule AcquireSector_overlap)
next
  assume dis: "existing AND allocate = 0"
  obtain out1 ids1 ex1 where f:
    "findExisting h st w sid PathTypes (emptyPaths, emptyPaths, existing) = (out1, ids1, ex1)"
    by (cases "findExisting h st w sid PathTypes (emptyPaths, emptyPaths, existing)") auto
  show "AcquireSector h st w sid spt existing allocate pathType op \<noteq> Inl ConflictingFileTypeRequest"
    using allocateNew_not_conflict [of h st w sid spt pathType PathTypes out1 ids1 allocate]
    by (auto simp: AcquireSector_disjoint [OF dis] f split: sum.splits prod.splits)
qed

theorem AcquireSector_conflict_witness:
  "FTSealed AND (FTSealed OR FTCache) \<noteq> 0 \<and>
   AcquireSector demoHost demoLocal 0 ''s-t01-7'' (Suc 0) FTSealed (FTSealed OR FTCache) PathSealing
     AcquireMove = Inl ConflictingFileTypeRequest \<and>
   FTUnsealed AND FTSealed = 0 \<and>
   AcquireSector demoHost demoLocal 0 ''s-t01-7'' (Suc 0) FTUnsealed FTSealed PathSealing AcquireMove
     \<noteq> Inl ConflictingFileTypeRequest"
proof -
  have a: "FTSealed AND (FTSealed OR FTCache) \<noteq> 0"
    by (simp add: FTSealed_def FTCache_def)
  have b: "FTUnsealed AND FTSealed = 0" by (simp add: FT_simps)
  show ?thesis
    using a b
      AcquireSector_conflict [of FTSealed "FTSealed OR FTCache" demoHost demoLocal 0 "''s-t01-7''"
        "Suc 0" PathSealing AcquireMove]
      AcquireSector_conflict [of FTUnsealed FTSealed demoHost demoLocal 0 "''s-t01-7''"
        "Suc 0" PathSealing AcquireMove]
    by simp
qed

lemma sectorPath_registered:
  "registered st i \<Longrightarrow>
   \<exists>p. paths st i = Some p \<and> local p \<noteq> [] \<and>
       sectorPath h st sid ft i = Join [local p, String h ft, SectorName h sid]"
  by (auto simp: registered_def sectorPath_def split: option.splits)

text \<open>
  Claim C1. Let a file type of \<open>PathTypes\<close> be in \<open>allocate\<close> and let the index answer
  \<open>StorageBestAlloc\<close> for it with the candidates \<open>sis\<close>; \<open>survivors\<close> are the candidates that
  are registered with a non-empty mount root and have the capability of the path type.
  If a candidate survives, every successful call returns for the type the path
  \<open>Join [root, String fileType, SectorName sid]\<close> under the mount root of the last
  survivor together with its identifier, and the call is successful when every other
  requested type has a survivor as well. If none survives, the call fails with "couldn't
  find a suitable path for a sector", provided the index answered for the types that the
  loop visits before.
\<close>

theorem AcquireSector_allocate:
  assumes "existing AND allocate = 0" and "fileType \<in> set PathTypes"
    and "fileType AND allocate \<noteq> 0"
    and "StorageBestAlloc (index st) w fileType spt pathType = Inr sis"
  shows "(survivors st pathType sis \<noteq> [] \<longrightarrow>
            (\<forall>out ids. AcquireSector h st w sid spt existing allocate pathType op = Inr (out, ids) \<longrightarrow>
               (\<exists>p. paths st (ID (last (survivors st pathType sis))) = Some p \<and> local p \<noteq> [] \<and>
                    PathByType out fileType = Join [local p, String h fileType, SectorName h sid]) \<and>
               PathByType ids fileType = ID (last (survivors st pathType sis))) \<and>
            ((\<forall>t \<in> set PathTypes. t \<noteq> fileType \<and> t AND allocate \<noteq> 0 \<longrightarrow>
                (\<exists>c. StorageBestAlloc (index st) w t spt pathType = Inr c \<and>
                     survivors st pathType c \<noteq> [])) \<longrightarrow>
             (\<exists>out ids. AcquireSector h st w sid spt existing allocate pathType op = Inr (out, ids)))) \<and>
         (survivors st pathType sis = [] \<and>
          (\<forall>t \<in> set (takeWhile (\<lambda>t. t \<noteq> fileType) PathTypes). t AND allocate \<noteq> 0 \<longrightarrow>
             (\<exists>c. StorageBestAlloc (index st) w t spt pathType = Inr c)) \<longrightarrow>
          AcquireSector h st w sid spt existing allocate pathType op = Inl NoSuitableStorage)"
proof (intro conjI impI allI)
  fix out ids
  assume ne: "survivors st pathType sis \<noteq> []"
    and r: "AcquireSector h st w sid spt existing allocate pathType op = Inr (out, ids)"
  have e: "PathByType out fileType =
             sectorPath h st sid fileType (ID (last (survivors st pathType sis))) \<and>
           PathByType ids fileType = ID (last (survivors st pathType sis))"
    using allocate_entry_of_result [OF r assms(2) assms(3) assms(4)] by simp
  have "registered st (ID (last (survivors st pathType sis)))"
    using last_survivors [OF ne] by simp
  then show "\<exists>p. paths st (ID (last (survivors st pathType sis))) = Some p \<and> local p \<noteq> [] \<and>
                 PathByType out fileType = Join [local p, String h fileType, SectorName h sid]"
    using sectorPath_registered [of st "ID (last (survivors st pathType sis))" h sid fileType] e
    by auto
  show "PathByType ids fileType = ID (last (survivors st pathType sis))" using e by simp
next
  assume ne: "survivors st pathType sis \<noteq> []"
    and others: "\<forall>t \<in> set PathTypes. t \<noteq> fileType \<and> t AND allocate \<noteq> 0 \<longrightarrow>
                (\<exists>c. StorageBestAlloc (index st) w t spt pathType = Inr c \<and>
                     survivors st pathType c \<noteq> [])"
  have "\<forall>t \<in> set PathTypes. t AND allocate \<noteq> 0 \<longrightarrow>
          (\<exists>c. StorageBestAlloc (index st) w t spt pathType = Inr c \<and> survivors st pathType c \<noteq> [])"
  proof (intro ballI impI)
    fix t assume t: "t \<in> set PathTypes" and nz: "t AND allocate \<noteq> 0"
    show "\<exists>c. StorageBestAlloc (index st) w t spt pathType = Inr c \<and> survivors st pathType c \<noteq> []"
    proof (cases "t = fileType")
      case True
      then show ?thesis using ne assms(4) by simp
    next
      case False
      then show ?thesis using others t nz by simp
    qed
  qed
  then show "\<exists>out ids. AcquireSector h st w sid spt existing allocate pathType op = Inr (out, ids)"
    by (rule AcquireSector_succeeds [OF assms(1)])
next
  assume h: "survivors st pathType sis = [] \<and>
          (\<forall>t \<in> set (takeWhile (\<lambda>t. t \<noteq> fileType) PathTypes). t AND allocate \<noteq> 0 \<longrightarrow>
             (\<exists>c. StorageBestAlloc (index st) w t spt pathType = Inr c))"
  obtain out1 ids1 ex1 where f:
    "findExisting h st w sid PathTypes (emptyPaths, emptyPaths, existing) = (out1, ids1, ex1)"
    by (cases "findExisting h st w sid PathTypes (emptyPaths, emptyPaths, existing)") auto
  have "allocateNew h st w sid spt pathType PathTypes (out1, ids1, allocate) = Inl NoSuitableStorage"
    using allocateNew_NoSuitable [OF PathTypes_distinct subset_refl assms(2) assms(3) assms(4)] h
    by blast
  then show "AcquireSector h st w sid spt existing allocate pathType op = Inl NoSuitableStorage"
    by (simp add: AcquireSector_disjoint [OF assms(1)] f)
qed

theorem AcquireSector_allocate_witness:
  "(\<exists>out ids.
      AcquireSector demoHost demoLocal 0 ''s-t01-7'' (Suc 0) FTNone FTSealed PathSealing AcquireMove
        = Inr (out, ids) \<and>
      PathByType out FTSealed = ''/p3/sealed/s-t01-7'' \<and> PathByType ids FTSealed = ''s3'') \<and>
   AcquireSector demoHost demoLocal 0 ''s-t01-7'' (Suc 0) FTNone (FTSealed OR FTCache) PathSealing
     AcquireMove = Inl NoSuitableStorage"
proof -
  have a1: "FTNone AND FTSealed = 0" by (simp add: FTNone_def)
  have a2: "FTSealed \<in> set PathTypes" by (simp add: PathTypes_def)
  have a3: "FTSealed AND FTSealed \<noteq> 0" by (simp add: FT_simps)
  have a4: "StorageBestAlloc (index demoLocal) 0 FTSealed (Suc 0) PathSealing = Inr [s1, s3, s2, s4]"
    by (simp add: demo_alloc)
  have b1: "FTNone AND (FTSealed OR FTCache) = 0" by (simp add: FTNone_def)
  have b2: "FTCache \<in> set PathTypes" by (simp add: PathTypes_def)
  have b3: "FTCache AND (FTSealed OR FTCache) \<noteq> 0" by (simp add: FTSealed_def FTCache_def)
  have b4: "StorageBestAlloc (index demoLocal) 0 FTCache (Suc 0) PathSealing = Inr [s4, s5]"
    by (simp add: demo_alloc)
  have others: "\<forall>t \<in> set PathTypes. t \<noteq> FTSealed \<and> t AND FTSealed \<noteq> 0 \<longrightarrow>
      (\<exists>c. StorageBestAlloc (index demoLocal) 0 t (Suc 0) PathSealing = Inr c \<and>
           survivors demoLocal PathSealing c \<noteq> [])"
    by (simp add: PathTypes_def FT_simps)
  have early: "\<forall>t \<in> set (takeWhile (\<lambda>t. t \<noteq> FTCache) PathTypes).
      t AND (FTSealed OR FTCache) \<noteq> 0 \<longrightarrow>
      (\<exists>c. StorageBestAlloc (index demoLocal) 0 t (Suc 0) PathSealing = Inr c)"
    by (simp add: demo_takeWhile demo_alloc)
  have first: "\<exists>out ids.
      AcquireSector demoHost demoLocal 0 ''s-t01-7'' (Suc 0) FTNone FTSealed PathSealing AcquireMove
        = Inr (out, ids) \<and>
      PathByType out FTSealed = ''/p3/sealed/s-t01-7'' \<and> PathByType ids FTSealed = ''s3''"
    using AcquireSector_allocate [OF a1 a2 a3 a4, of demoHost "''s-t01-7''" AcquireMove] others
    by (simp add: demo_survivors demo_ids demo_paths String_def FT_distinct demoHost_def demo_Join)
       blast
  have second: "AcquireSector demoHost demoLocal 0 ''s-t01-7'' (Suc 0) FTNone (FTSealed OR FTCache)
      PathSealing AcquireMove = Inl NoSuitableStorage"
    using AcquireSector_allocate [OF b1 b2 b3 b4, of demoHost "''s-t01-7''" AcquireMove] early
    by (simp add: demo_survivors)
  show ?thesis using first second by simp
qed

text \<open>
  Claim C7. Let a file type of \<open>PathTypes\<close> be in \<open>existing\<close> and let the index answer
  \<open>StorageFindSector\<close> for it with the holders \<open>si\<close>. In every successful call the entry
  of the type is the path and the identifier of the first holder, in the order of the index,
  that is registered with a non-empty mount root: the holders before it are passed over
  and the holders after it are not looked at. If no holder is registered the entry stays
  empty. The first half never makes the call fail: a call errs exactly as the same call
  with nothing to find does, and a call that allocates nothing succeeds.
\<close>

theorem AcquireSector_existing:
  assumes "existing AND allocate = 0" and "fileType \<in> set PathTypes"
    and "fileType AND existing \<noteq> 0"
    and "StorageFindSector (index st) w sid fileType False = Inr si"
  shows "(\<forall>out ids. AcquireSector h st w sid spt existing allocate pathType op = Inr (out, ids) \<longrightarrow>
            (\<forall>pre info post.
               si = pre @ info # post \<and> (\<forall>x \<in> set pre. \<not> registered st (ID x)) \<and>
               registered st (ID info) \<longrightarrow>
               (\<exists>p. paths st (ID info) = Some p \<and> local p \<noteq> [] \<and>
                    PathByType out fileType = Join [local p, String h fileType, SectorName h sid]) \<and>
               PathByType ids fileType = ID info) \<and>
            ((\<forall>x \<in> set si. \<not> registered st (ID x)) \<longrightarrow>
               PathByType out fileType = [] \<and> PathByType ids fileType = [])) \<and>
         (\<forall>e. AcquireSector h st w sid spt existing allocate pathType op = Inl e \<longleftrightarrow>
              AcquireSector h st w sid spt FTNone allocate pathType op = Inl e) \<and>
         (allocate = FTNone \<longrightarrow>
            (\<exists>out ids. AcquireSector h st w sid spt existing allocate pathType op = Inr (out, ids)))"
proof (intro conjI allI impI)
  fix out ids pre info post
  assume r: "AcquireSector h st w sid spt existing allocate pathType op = Inr (out, ids)"
    and d: "si = pre @ info # post \<and> (\<forall>x \<in> set pre. \<not> registered st (ID x)) \<and>
            registered st (ID info)"
  have "firstUsable st si = Some info"
    using d firstUsable_Some [of st si info] by blast
  then have hit: "existingHit st w sid existing fileType = Some info"
    using assms(3) assms(4) by (simp add: existingHit_def and.commute)
  have e: "PathByType out fileType = sectorPath h st sid fileType (ID info) \<and>
           PathByType ids fileType = ID info"
    using existing_entry_of_result [OF r assms(2) assms(3)] hit by simp
  show "\<exists>p. paths st (ID info) = Some p \<and> local p \<noteq> [] \<and>
            PathByType out fileType = Join [local p, String h fileType, SectorName h sid]"
    using sectorPath_registered [of st "ID info" h sid fileType] d e by auto
  show "PathByType ids fileType = ID info" using e by simp
next
  fix out ids
  assume r: "AcquireSector h st w sid spt existing allocate pathType op = Inr (out, ids)"
    and n: "\<forall>x \<in> set si. \<not> registered st (ID x)"
  have "firstUsable st si = None" using n by (simp add: firstUsable_None)
  then have hit: "existingHit st w sid existing fileType = None"
    using assms(4) by (simp add: existingHit_def)
  show "PathByType out fileType = []" "PathByType ids fileType = []"
    using existing_entry_of_result [OF r assms(2) assms(3)] hit by simp_all
next
  fix e
  show "AcquireSector h st w sid spt existing allocate pathType op = Inl e \<longleftrightarrow>
        AcquireSector h st w sid spt FTNone allocate pathType op = Inl e"
    by (rule AcquireSector_error_existing [OF assms(1)])
next
  assume "allocate = FTNone"
  then have "\<forall>t \<in> set PathTypes. t AND allocate \<noteq> 0 \<longrightarrow>
      (\<exists>c. StorageBestAlloc (index st) w t spt pathType = Inr c \<and> survivors st pathType c \<noteq> [])"
    by (simp add: FTNone_def)
  then show "\<exists>out ids. AcquireSector h st w sid spt existing allocate pathType op = Inr (out, ids)"
    by (rule AcquireSector_succeeds [OF assms(1)])
qed

theorem AcquireSector_existing_witness:
  "(\<exists>out ids.
      AcquireSector demoHost demoLocal 0 ''s-t01-7'' (Suc 0) FTSealed FTNone PathSealing AcquireMove
        = Inr (out, ids) \<and>
      PathByType out FTSealed = ''/p1/sealed/s-t01-7'' \<and> PathByType ids FTSealed = ''s1'') \<and>
   (\<exists>out ids.
      AcquireSector demoHost demoLocal 0 ''s-t01-7'' (Suc 0) FTUnsealed FTNone PathSealing AcquireMove
        = Inr (out, ids) \<and>
      PathByType out FTUnsealed = [] \<and> PathByType ids FTUnsealed = [])"
proof -
  have a1: "FTSealed AND FTNone = 0" by (simp add: FTNone_def)
  have a2: "FTSealed \<in> set PathTypes" by (simp add: PathTypes_def)
  have a3: "FTSealed AND FTSealed \<noteq> 0" by (simp add: FT_simps)
  have a4: "StorageFindSector (index demoLocal) 0 ''s-t01-7'' FTSealed False =
      Inr [holder s4 False, holder s5 False, holder s1 True, holder s2 False]"
    by (simp add: demo_find)
  have b1: "FTUnsealed AND FTNone = 0" by (simp add: FTNone_def)
  have b2: "FTUnsealed \<in> set PathTypes" by (simp add: PathTypes_def)
  have b3: "FTUnsealed AND FTUnsealed \<noteq> 0" by (simp add: FT_simps)
  have b4: "StorageFindSector (index demoLocal) 0 ''s-t01-7'' FTUnsealed False = Inr [holder s4 False]"
    by (simp add: demo_find)
  have split: "[holder s4 False, holder s5 False, holder s1 True, holder s2 False] =
      [holder s4 False, holder s5 False] @ holder s1 True # [holder s2 False] \<and>
      (\<forall>x \<in> set [holder s4 False, holder s5 False]. \<not> registered demoLocal (ID x)) \<and>
      registered demoLocal (ID (holder s1 True))"
    by (simp add: demo_ids demo_registered)
  have none: "\<forall>x \<in> set [holder s4 False]. \<not> registered demoLocal (ID x)"
    by (simp add: demo_ids demo_registered)
  note A = AcquireSector_existing [OF a1 a2 a3 a4, of demoHost "Suc 0" PathSealing AcquireMove]
  note B = AcquireSector_existing [OF b1 b2 b3 b4, of demoHost "Suc 0" PathSealing AcquireMove]
  obtain out ids where r: "AcquireSector demoHost demoLocal 0 ''s-t01-7'' (Suc 0) FTSealed FTNone
      PathSealing AcquireMove = Inr (out, ids)"
    using A by blast
  have "(\<exists>p. paths demoLocal (ID (holder s1 True)) = Some p \<and> local p \<noteq> [] \<and>
            PathByType out FTSealed = Join [local p, String demoHost FTSealed, SectorName demoHost ''s-t01-7'']) \<and>
        PathByType ids FTSealed = ID (holder s1 True)"
    using A r split by blast
  then have first: "PathByType out FTSealed = ''/p1/sealed/s-t01-7'' \<and> PathByType ids FTSealed = ''s1''"
    by (auto simp: demo_ids demo_paths String_def FT_distinct demoHost_def demo_Join)
  obtain out' ids' where r': "AcquireSector demoHost demoLocal 0 ''s-t01-7'' (Suc 0) FTUnsealed FTNone
      PathSealing AcquireMove = Inr (out', ids')"
    using B by blast
  have second: "PathByType out' FTUnsealed = [] \<and> PathByType ids' FTUnsealed = []"
    using B r' none by blast
  show ?thesis using r first r' second by blast
qed

text \<open>
  Claim C10. Let a file type of \<open>PathTypes\<close> be in \<open>existing\<close> and let the index answer
  \<open>StorageFindSector\<close> for it with an error. In every successful call the entry of the
  type is empty and every other type of \<open>existing\<close> that has a registered holder is still
  resolved to its first one; the call is successful whenever every type of \<open>allocate\<close>
  has a surviving candidate. An error of \<open>StorageBestAlloc\<close> for a type of \<open>allocate\<close>,
  in contrast, makes the call fail.
\<close>

theorem AcquireSector_find_error:
  assumes "existing AND allocate = 0" and "fileType \<in> set PathTypes"
    and "fileType AND existing \<noteq> 0"
    and "StorageFindSector (index st) w sid fileType False = Inl err"
  shows "(\<forall>out ids. AcquireSector h st w sid spt existing allocate pathType op = Inr (out, ids) \<longrightarrow>
            PathByType out fileType = [] \<and> PathByType ids fileType = [] \<and>
            (\<forall>t \<in> set PathTypes. \<forall>si info.
               t AND existing \<noteq> 0 \<and> StorageFindSector (index st) w sid t False = Inr si \<and>
               firstUsable st si = Some info \<longrightarrow>
               PathByType out t = sectorPath h st sid t (ID info) \<and> PathByType ids t = ID info)) \<and>
         ((\<forall>t \<in> set PathTypes. t AND allocate \<noteq> 0 \<longrightarrow>
             (\<exists>c. StorageBestAlloc (index st) w t spt pathType = Inr c \<and>
                  survivors st pathType c \<noteq> [])) \<longrightarrow>
          (\<exists>out ids. AcquireSector h st w sid spt existing allocate pathType op = Inr (out, ids))) \<and>
         (\<forall>t \<in> set PathTypes. \<forall>err'.
            t AND allocate \<noteq> 0 \<and> StorageBestAlloc (index st) w t spt pathType = Inl err' \<longrightarrow>
            (\<exists>e. AcquireSector h st w sid spt existing allocate pathType op = Inl e))"
proof (intro conjI allI impI ballI)
  fix out ids
  assume r: "AcquireSector h st w sid spt existing allocate pathType op = Inr (out, ids)"
  have hit: "existingHit st w sid existing fileType = None"
    using assms(4) by (simp add: existingHit_def)
  show "PathByType out fileType = []" "PathByType ids fileType = []"
    using existing_entry_of_result [OF r assms(2) assms(3)] hit by simp_all
  fix t si info
  assume t: "t \<in> set PathTypes"
    and c: "t AND existing \<noteq> 0 \<and> StorageFindSector (index st) w sid t False = Inr si \<and>
            firstUsable st si = Some info"
  have hit': "existingHit st w sid existing t = Some info"
    using c by (simp add: existingHit_def)
  show "PathByType out t = sectorPath h st sid t (ID info)" "PathByType ids t = ID info"
    using existing_entry_of_result [OF r t] c hit' by simp_all
next
  assume "\<forall>t \<in> set PathTypes. t AND allocate \<noteq> 0 \<longrightarrow>
             (\<exists>c. StorageBestAlloc (index st) w t spt pathType = Inr c \<and>
                  survivors st pathType c \<noteq> [])"
  then show "\<exists>out ids. AcquireSector h st w sid spt existing allocate pathType op = Inr (out, ids)"
    by (rule AcquireSector_succeeds [OF assms(1)])
next
  fix t err'
  assume t: "t \<in> set PathTypes"
    and c: "t AND allocate \<noteq> 0 \<and> StorageBestAlloc (index st) w t spt pathType = Inl err'"
  obtain out1 ids1 ex1 where f:
    "findExisting h st w sid PathTypes (emptyPaths, emptyPaths, existing) = (out1, ids1, ex1)"
    by (cases "findExisting h st w sid PathTypes (emptyPaths, emptyPaths, existing)") auto
  have c1: "t AND allocate \<noteq> 0"
    and c2: "StorageBestAlloc (index st) w t spt pathType = Inl err'"
    using c by simp_all
  have "\<exists>e. allocateNew h st w sid spt pathType PathTypes (out1, ids1, allocate) = Inl e"
    by (rule allocateNew_index_error [OF PathTypes_distinct subset_refl t c1 c2])
  then obtain e where "allocateNew h st w sid spt pathType PathTypes (out1, ids1, allocate) = Inl e"
    by (elim exE)
  then show "\<exists>e. AcquireSector h st w sid spt existing allocate pathType op = Inl e"
    by (simp add: AcquireSector_disjoint [OF assms(1)] f)
qed

theorem AcquireSector_find_error_witness:
  "(\<exists>out ids.
      AcquireSector demoHost demoLocal 0 ''s-t01-7'' (Suc 0) (FTSealed OR FTCache) FTUnsealed
        PathStorage AcquireMove = Inr (out, ids) \<and>
      PathByType out FTCache = [] \<and> PathByType ids FTCache = [] \<and>
      PathByType out FTSealed = ''/p1/sealed/s-t01-7'' \<and> PathByType ids FTSealed = ''s1'') \<and>
   (\<exists>e. AcquireSector demoHost demoLocal 0 ''s-t01-7'' 0 (FTSealed OR FTCache) FTUnsealed
        PathStorage AcquireMove = Inl e)"
proof -
  have a1: "(FTSealed OR FTCache) AND FTUnsealed = 0"
    by (simp add: FTSealed_def FTCache_def FTUnsealed_def)
  have a2: "FTCache \<in> set PathTypes" by (simp add: PathTypes_def)
  have a3: "FTCache AND (FTSealed OR FTCache) \<noteq> 0" by (simp add: FTSealed_def FTCache_def)
  have a4: "StorageFindSector (index demoLocal) 0 ''s-t01-7'' FTCache False = Inl ''index unreachable''"
    by (simp add: demo_find)
  have sealed: "FTSealed \<in> set PathTypes" "FTSealed AND (FTSealed OR FTCache) \<noteq> 0"
    "StorageFindSector (index demoLocal) 0 ''s-t01-7'' FTSealed False =
       Inr [holder s4 False, holder s5 False, holder s1 True, holder s2 False]"
    "firstUsable demoLocal [holder s4 False, holder s5 False, holder s1 True, holder s2 False] =
       Some (holder s1 True)"
    by (simp_all add: PathTypes_def FTSealed_def FTCache_def demo_find [unfolded FTSealed_def]
          firstUsable_def demo_ids demo_registered)
  have allocs: "\<forall>t \<in> set PathTypes. t AND FTUnsealed \<noteq> 0 \<longrightarrow>
      (\<exists>c. StorageBestAlloc (index demoLocal) 0 t (Suc 0) PathStorage = Inr c \<and>
           survivors demoLocal PathStorage c \<noteq> [])"
    by (simp add: PathTypes_def FT_simps demo_alloc demo_survivors)
  have fails: "FTUnsealed \<in> set PathTypes" "FTUnsealed AND FTUnsealed \<noteq> 0 \<and>
      StorageBestAlloc (index demoLocal) 0 FTUnsealed 0 PathStorage = Inl ''unknown proof type''"
    by (simp_all add: PathTypes_def FT_simps demo_alloc)
  note A = AcquireSector_find_error [OF a1 a2 a3 a4, of demoHost "Suc 0" PathStorage AcquireMove]
  note B = AcquireSector_find_error [OF a1 a2 a3 a4, of demoHost 0 PathStorage AcquireMove]
  obtain out ids where r: "AcquireSector demoHost demoLocal 0 ''s-t01-7'' (Suc 0)
      (FTSealed OR FTCache) FTUnsealed PathStorage AcquireMove = Inr (out, ids)"
    using A allocs by blast
  have cache: "PathByType out FTCache = [] \<and> PathByType ids FTCache = []"
    using A r by blast
  have "PathByType out FTSealed = sectorPath demoHost demoLocal ''s-t01-7'' FTSealed (ID (holder s1 True)) \<and>
        PathByType ids FTSealed = ID (holder s1 True)"
    using A r sealed by blast
  then have other: "PathByType out FTSealed = ''/p1/sealed/s-t01-7'' \<and> PathByType ids FTSealed = ''s1''"
    by (simp add: demo_ids demo_sectorPath)
  have second: "\<exists>e. AcquireSector demoHost demoLocal 0 ''s-t01-7'' 0 (FTSealed OR FTCache) FTUnsealed
        PathStorage AcquireMove = Inl e"
    using B fails by blast
  show ?thesis using r cache other second by blast
qed

lemma demo_AcquireSector_sealed:
  "AcquireSector demoHost demoLocal 0 ''s-t01-7'' (Suc 0) FTNone FTSealed PathSealing AcquireMove =
     Inr (\<lparr>Unsealed = [], Sealed = ''/p3/sealed/s-t01-7'', Cache = []\<rparr>,
          \<lparr>Unsealed = [], Sealed = ''s3'', Cache = []\<rparr>)"
proof -
  have dis: "FTNone AND FTSealed = 0" by (simp add: FTNone_def)
  show ?thesis
    by (simp add: AcquireSector_disjoint [OF dis] PathTypes_def findExisting_step existingHit_def
          FT_and_None allocateNew_step FT_simps demo_alloc demo_survivors demo_ids demo_sectorPath
          SetPathByType_def emptyPaths_def FT_distinct
        del: allocateNew.simps findExisting.simps)
       simp
qed

text \<open>
  Claim C8, as stated, fails: \<open>AcquireSector\<close> never reads \<open>Weight\<close>. In the small deployment
  the index proposes \<open>s3\<close>, whose weight is 0, for a sealed file; it is the last candidate
  that passes the filter, and it is selected.
\<close>

theorem AcquireSector_weight_counterexample:
  "StorageBestAlloc (index demoLocal) 0 FTSealed (Suc 0) PathSealing = Inr [s1, s3, s2, s4] \<and>
   AcquireSector demoHost demoLocal 0 ''s-t01-7'' (Suc 0) FTNone FTSealed PathSealing AcquireMove =
     Inr (\<lparr>Unsealed = [], Sealed = ''/p3/sealed/s-t01-7'', Cache = []\<rparr>,
          \<lparr>Unsealed = [], Sealed = ''s3'', Cache = []\<rparr>) \<and>
   ID s3 = ''s3'' \<and> Weight s3 = 0"
  by (simp add: demo_alloc demo_AcquireSector_sealed demo_ids) (simp add: s3_def)

text \<open>
  Claim C8, amended. The weight is left to the index: when no candidate that the index
  returns for a file type of \<open>allocate\<close> has weight 0, the candidate that a successful call
  resolves the type to, the last survivor of the filter, has a weight different from 0.
\<close>

theorem AcquireSector_weight:
  assumes "AcquireSector h st w sid spt existing allocate pathType op = Inr (out, ids)"
    and "fileType \<in> set PathTypes" and "fileType AND allocate \<noteq> 0"
    and "StorageBestAlloc (index st) w fileType spt pathType = Inr sis"
    and "\<forall>c \<in> set sis. Weight c \<noteq> 0"
  shows "survivors st pathType sis \<noteq> [] \<and>
         PathByType ids fileType = ID (last (survivors st pathType sis)) \<and>
         last (survivors st pathType sis) \<in> set sis \<and>
         Weight (last (survivors st pathType sis)) \<noteq> 0"
proof -
  have e: "survivors st pathType sis \<noteq> [] \<and>
           PathByType ids fileType = ID (last (survivors st pathType sis))"
    using allocate_entry_of_result [OF assms(1) assms(2) assms(3) assms(4)] by simp
  then have m: "last (survivors st pathType sis) \<in> set sis"
    using last_survivors [of st pathType sis] by simp
  then have "Weight (last (survivors st pathType sis)) \<noteq> 0" using assms(5) by simp
  then show ?thesis using e m by simp
qed

theorem AcquireSector_weight_witness:
  "\<exists>out ids.
     AcquireSector demoHost demoLocal 0 ''s-t01-7'' (Suc 0) FTNone FTUnsealed PathStorage AcquireMove
       = Inr (out, ids) \<and>
     (\<forall>c \<in> set [s4, s1, s5, s2]. Weight c \<noteq> 0) \<and>
     PathByType ids FTUnsealed = ''s2'' \<and> Weight s2 \<noteq> 0"
proof -
  have dis: "FTNone AND FTUnsealed = 0" by (simp add: FTNone_def)
  have allocs: "\<forall>t \<in> set PathTypes. t AND FTUnsealed \<noteq> 0 \<longrightarrow>
      (\<exists>c. StorageBestAlloc (index demoLocal) 0 t (Suc 0) PathStorage = Inr c \<and>
           survivors demoLocal PathStorage c \<noteq> [])"
    by (simp add: PathTypes_def FT_simps demo_alloc demo_survivors)
  obtain out ids where r: "AcquireSector demoHost demoLocal 0 ''s-t01-7'' (Suc 0) FTNone FTUnsealed
      PathStorage AcquireMove = Inr (out, ids)"
    using AcquireSector_succeeds [OF dis allocs] by blast
  have a2: "FTUnsealed \<in> set PathTypes" by (simp add: PathTypes_def)
  have a3: "FTUnsealed AND FTUnsealed \<noteq> 0" by (simp add: FT_simps)
  have a4: "StorageBestAlloc (index demoLocal) 0 FTUnsealed (Suc 0) PathStorage = Inr [s4, s1, s5, s2]"
    by (simp add: demo_alloc)
  have a5: "\<forall>c \<in> set [s4, s1, s5, s2]. Weight c \<noteq> 0"
    by (simp add: s1_def s2_def s4_def s5_def)
  have "PathByType ids FTUnsealed = ''s2'' \<and> Weight s2 \<noteq> 0"
    using AcquireSector_weight [OF r a2 a3 a4 a5] by (simp add: demo_survivors demo_ids)
  then show ?thesis using r a5 by blast
qed

section \<open>The sleep interval of the health reporter\<close>

lemma wrap64_id: "- (2 ^ 63) \<le> x \<Longrightarrow> x < 2 ^ 63 \<Longrightarrow> wrap64 x = x"
  by (simp add: wrap64_def)

lemma sdiv_nonneg: "0 \<le> a \<Longrightarrow> 0 < b \<Longrightarrow> (a :: int) sdiv b = a div b"
  by (simp add: signed_divide_int_def sgn_if)

text \<open>
  Claim C9 fails on the code. The source comment says "randomize interval by ~10%", but the
  random draw is added to the numerator without being scaled by the base interval, and the
  division by 100000 removes it again: for every draw the interval is exactly the base
  interval (for every base interval that does not overflow).
\<close>

theorem reportHealthInterval_constant:
  assumes "0 \<le> HeartbeatInterval" and "HeartbeatInterval * 100000 + 9999 < 2 ^ 63"
    and "0 \<le> r" and "r < 10000"
  shows "reportHealthInterval HeartbeatInterval r = HeartbeatInterval"
proof -
  have m: "wrap64 (HeartbeatInterval * 100000) = HeartbeatInterval * 100000"
    using assms by (intro wrap64_id) auto
  have s: "wrap64 (HeartbeatInterval * 100000 + r) = HeartbeatInterval * 100000 + r"
    using assms by (intro wrap64_id) auto
  have "(HeartbeatInterval * 100000 + r) sdiv 100000 = (HeartbeatInterval * 100000 + r) div 100000"
    using assms by (intro sdiv_nonneg) auto
  also have "\<dots> = HeartbeatInterval"
    using assms(3) assms(4) by simp
  finally show ?thesis by (simp add: reportHealthInterval_def m s)
qed

theorem reportHealthInterval_constant_witness:
  "(0 :: int) \<le> 10000000000 \<and> (10000000000 :: int) * 100000 + 9999 < 2 ^ 63 \<and>
   reportHealthInterval 10000000000 9999 = 10000000000 \<and>
   reportHealthInterval 10000000000 0 = 10000000000"
  using reportHealthInterval_constant [of 10000000000 9999]
    reportHealthInterval_constant [of 10000000000 0]
  by simp

section \<open>Properties of Remove and RemoveCopies\<close>

text \<open>
  Claim C5. With more than one bit set in the file type, \<open>Remove\<close> returns "delete expects
  one file type". With exactly one bit set and no holder reported by the index, it
  returns "can't delete sector, not found" when \<open>force\<close> is false, and \<open>nil\<close> when
  \<open>force\<close> is true; in all three cases it changes nothing and logs no effect.
\<close>

theorem Remove_guards:
  "(1 < OnesCount typ \<longrightarrow>
      Remove h st sid typ force (w, tr) = (Some SingleFileTypeRequired, (w, tr))) \<and>
   (OnesCount typ = 1 \<and> StorageFindSector (index st) w sid typ False = Inr [] \<longrightarrow>
      Remove h st sid typ False (w, tr) = (Some SectorNotFound, (w, tr)) \<and>
      Remove h st sid typ True (w, tr) = (None, (w, tr)))"
  by (simp add: Remove_def)

lemma demo_OnesCount: "OnesCount (FTSealed OR FTCache) = 2" "OnesCount FTCache = 1"
  "OnesCount FTSealed = 1" "OnesCount FTUnsealed = 1"
  by code_simp+

theorem Remove_guards_witness:
  "1 < OnesCount (FTSealed OR FTCache) \<and>
   Remove demoHost demoLocal ''s-t01-7'' (FTSealed OR FTCache) True (0, []) =
     (Some SingleFileTypeRequired, (0, [])) \<and>
   OnesCount FTCache = 1 \<and>
   StorageFindSector (index demoLocal) 0 ''s-t01-9'' FTCache False = Inr [] \<and>
   Remove demoHost demoLocal ''s-t01-9'' FTCache False (0, []) = (Some SectorNotFound, (0, [])) \<and>
   Remove demoHost demoLocal ''s-t01-9'' FTCache True (0, []) = (None, (0, []))"
  using Remove_guards [of "FTSealed OR FTCache" demoHost demoLocal "''s-t01-7''" True 0 "[]"]
    Remove_guards [of FTCache demoHost demoLocal "''s-t01-9''" True 0 "[]"]
  by (simp add: demo_OnesCount demo_find)

lemma removeSector_unregistered:
  "\<not> registered st i \<Longrightarrow> removeSector h st sid typ i s = (None, s)"
  by (cases s) (auto simp: removeSector_def registered_def split: option.splits)

lemma removeSector_registered:
  "registered st i \<Longrightarrow>
   removeSector h st sid typ i (w, tr) =
     (case StorageDropSector (index st) w i sid typ of
        (Some err, w1) \<Rightarrow>
          (Some (DropSectorFailed err), (w1, tr @ [EvDropSector i sid typ (Some err)]))
      | (None, w1) \<Rightarrow>
          (case RemoveAll h w1 (sectorPath h st sid typ i) of
             (r, w2) \<Rightarrow>
               (None, (w2, tr @ [EvDropSector i sid typ None,
                                 EvRemoveAll (sectorPath h st sid typ i) r]))))"
  by (auto simp: removeSector_def registered_def sectorPath_def Let_def
        split: option.splits prod.splits)

lemma removalLog_Nil: "removalLog h st sid typ [] = []"
  by (simp add: removalLog_def)

lemma removalLog_Cons:
  "removalLog h st sid typ ((i, r) # pairs) =
     EvDropSector i sid typ None # EvRemoveAll (sectorPath h st sid typ i) r #
     removalLog h st sid typ pairs"
  by (simp add: removalLog_def)

lemma removeHolders_log:
  assumes "removeHolders h st sid typ xs (w, tr) = (res, (w', tr'))"
  shows "\<exists>pairs.
           (res = None \<and> tr' = tr @ removalLog h st sid typ pairs \<and>
            map fst pairs = map ID (filter (\<lambda>x. registered st (ID x)) xs)) \<or>
           (\<exists>i err rest.
              res = Some (DropSectorFailed err) \<and>
              tr' = tr @ removalLog h st sid typ pairs @ [EvDropSector i sid typ (Some err)] \<and>
              map ID (filter (\<lambda>x. registered st (ID x)) xs) = map fst pairs @ i # rest)"
  using assms
proof (induction xs arbitrary: w tr)
  case Nil
  then have "res = None \<and> tr' = tr @ removalLog h st sid typ [] \<and>
      map fst ([] :: (ID \<times> string option) list) = map ID (filter (\<lambda>x. registered st (ID x)) [])"
    by (simp add: removalLog_Nil)
  then show ?case by blast
next
  case (Cons x xs)
  show ?case
  proof (cases "registered st (ID x)")
    case False
    then have "removeHolders h st sid typ xs (w, tr) = (res, (w', tr'))"
      using Cons.prems by (simp add: removeSector_unregistered)
    then show ?thesis using Cons.IH False by simp
  next
    case True
    obtain d w1 where drop: "StorageDropSector (index st) w (ID x) sid typ = (d, w1)"
      by (cases "StorageDropSector (index st) w (ID x) sid typ") auto
    show ?thesis
    proof (cases d)
      case (Some err)
      then have "res = Some (DropSectorFailed err) \<and>
          tr' = tr @ removalLog h st sid typ [] @ [EvDropSector (ID x) sid typ (Some err)] \<and>
          map ID (filter (\<lambda>x. registered st (ID x)) (x # xs)) =
            map fst ([] :: (ID \<times> string option) list) @ ID x #
            map ID (filter (\<lambda>x. registered st (ID x)) xs)"
        using Cons.prems True drop
        by (simp add: removeSector_registered removalLog_Nil)
      then show ?thesis by blast
    next
      case None
      obtain r w2 where rm: "RemoveAll h w1 (sectorPath h st sid typ (ID x)) = (r, w2)"
        by (cases "RemoveAll h w1 (sectorPath h st sid typ (ID x))") auto
      let ?tr1 = "tr @ [EvDropSector (ID x) sid typ None,
                       EvRemoveAll (sectorPath h st sid typ (ID x)) r]"
      have run: "removeHolders h st sid typ xs (w2, ?tr1) = (res, (w', tr'))"
        using Cons.prems True drop None rm by (simp add: removeSector_registered)
      obtain pairs where p:
        "(res = None \<and> tr' = ?tr1 @ removalLog h st sid typ pairs \<and>
          map fst pairs = map ID (filter (\<lambda>x. registered st (ID x)) xs)) \<or>
         (\<exists>i err rest.
            res = Some (DropSectorFailed err) \<and>
            tr' = ?tr1 @ removalLog h st sid typ pairs @ [EvDropSector i sid typ (Some err)] \<and>
            map ID (filter (\<lambda>x. registered st (ID x)) xs) = map fst pairs @ i # rest)"
        using Cons.IH [OF run] by blast
      have "(res = None \<and> tr' = tr @ removalLog h st sid typ ((ID x, r) # pairs) \<and>
          map fst ((ID x, r) # pairs) = map ID (filter (\<lambda>x. registered st (ID x)) (x # xs))) \<or>
         (\<exists>i err rest.
            res = Some (DropSectorFailed err) \<and>
            tr' = tr @ removalLog h st sid typ ((ID x, r) # pairs) @
                    [EvDropSector i sid typ (Some err)] \<and>
            map ID (filter (\<lambda>x. registered st (ID x)) (x # xs)) =
              map fst ((ID x, r) # pairs) @ i # rest)"
        using p True by (auto simp: removalLog_Cons)
      then show ?thesis by blast
    qed
  qed
qed

lemma removeNonPrimary_eq:
  "removeNonPrimary h st sid typ si s =
   removeHolders h st sid typ (filter (\<lambda>info. \<not> Primary info) si) s"
  by (induction si arbitrary: s) (auto split: prod.splits option.splits)

lemma hasPrimary_iff: "hasPrimary si \<longleftrightarrow> (\<exists>info \<in> set si. Primary info)"
  by (induction si) auto

lemma filter_nonprimary_registered:
  "filter (\<lambda>x. registered st (ID x)) (filter (\<lambda>info. \<not> Primary info) si) =
   filter (\<lambda>info. \<not> Primary info \<and> registered st (ID info)) si"
  by (induction si) auto




lemma demo_drop:
  "StorageDropSector (index demoLocal) w i sid ft =
     (if i = ''s3'' then Some ''index refused'' else None, Suc w)"
  by (simp add: demoLocal_def demoIndex_def)

lemma demo_RemoveAll:
  "RemoveAll demoHost w p = (if take 4 p = ''/p1/'' then Some ''device busy'' else None, Suc w)"
  by (simp add: demoHost_def)






lemma demo_RemoveCopies:
  "RemoveCopies demoHost demoLocal ''s-t01-7'' FTSealed (0, []) =
     (None, (2, [EvDropSector ''s2'' ''s-t01-7'' FTSealed None,
                 EvRemoveAll ''/p2/sealed/s-t01-7'' None]))"
  by (simp add: RemoveCopies_def demo_OnesCount demo_find removeSector_registered
        removeSector_unregistered demo_ids demo_registered demo_sectorPath demo_drop
        demo_RemoveAll numeral_eq_Suc)

text \<open>
  Claim C3, as stated, fails: \<open>RemoveCopies\<close> does not remove every holder that is not
  primary. In the small deployment the index reports for a sealed file the holders \<open>s4\<close>,
  \<open>s5\<close>, \<open>s1\<close> (primary) and \<open>s2\<close>. The call returns \<open>nil\<close> and its only effects
  concern \<open>s2\<close>: \<open>s4\<close>, which the path table does not have, and \<open>s5\<close>, whose mount root
  is empty, are not primary and stay in the index.
\<close>

theorem RemoveCopies_counterexample:
  "OnesCount FTSealed = 1 \<and>
   StorageFindSector (index demoLocal) 0 ''s-t01-7'' FTSealed False =
     Inr [holder s4 False, holder s5 False, holder s1 True, holder s2 False] \<and>
   ID (holder s4 False) = ''s4'' \<and> \<not> Primary (holder s4 False) \<and>
   ID (holder s5 False) = ''s5'' \<and> \<not> Primary (holder s5 False) \<and>
   Primary (holder s1 True) \<and>
   RemoveCopies demoHost demoLocal ''s-t01-7'' FTSealed (0, []) =
     (None, (2, [EvDropSector ''s2'' ''s-t01-7'' FTSealed None,
                 EvRemoveAll ''/p2/sealed/s-t01-7'' None]))"
  by (simp add: demo_OnesCount demo_find demo_ids demo_RemoveCopies)

text \<open>
  Claim C3, amended. For a file type with exactly one bit set and holders \<open>si\<close> reported by
  the index: when no holder is primary \<open>RemoveCopies\<close> returns \<open>nil\<close> and has no effect.
  Otherwise it removes, in the order of the index, exactly the holders that are not primary
  and whose identifier is registered in the path table with a non-empty mount root, each
  by the drop from the index followed by the removal of the file, until a drop fails; the
  failing drop is for the next such holder and its error is returned. Holders that are not
  registered are passed over, and no effect concerns a holder outside that list, so none
  concerns a holder that is only listed as primary.
\<close>

theorem RemoveCopies_removes:
  assumes "OnesCount typ = 1"
    and "StorageFindSector (index st) w sid typ False = Inr si"
  shows "((\<forall>info \<in> set si. \<not> Primary info) \<longrightarrow>
            RemoveCopies h st sid typ (w, tr) = (None, (w, tr))) \<and>
         ((\<exists>info \<in> set si. Primary info) \<longrightarrow>
            (\<forall>res w' tr'. RemoveCopies h st sid typ (w, tr) = (res, (w', tr')) \<longrightarrow>
               (\<exists>pairs.
                  (res = None \<and> tr' = tr @ removalLog h st sid typ pairs \<and>
                   map fst pairs =
                     map ID (filter (\<lambda>info. \<not> Primary info \<and> registered st (ID info)) si)) \<or>
                  (\<exists>i err rest.
                     res = Some (DropSectorFailed err) \<and>
                     tr' = tr @ removalLog h st sid typ pairs @ [EvDropSector i sid typ (Some err)] \<and>
                     map ID (filter (\<lambda>info. \<not> Primary info \<and> registered st (ID info)) si) =
                       map fst pairs @ i # rest))))"
proof (intro conjI impI allI)
  assume "\<forall>info \<in> set si. \<not> Primary info"
  then have "\<not> hasPrimary si" by (simp add: hasPrimary_iff)
  then show "RemoveCopies h st sid typ (w, tr) = (None, (w, tr))"
    using assms by (simp add: RemoveCopies_def)
next
  fix res w' tr'
  assume "\<exists>info \<in> set si. Primary info"
    and r: "RemoveCopies h st sid typ (w, tr) = (res, (w', tr'))"
  then have "hasPrimary si" by (simp add: hasPrimary_iff)
  then have "removeHolders h st sid typ (filter (\<lambda>info. \<not> Primary info) si) (w, tr) =
      (res, (w', tr'))"
    using r assms by (simp add: RemoveCopies_def removeNonPrimary_eq)
  then show "\<exists>pairs.
      (res = None \<and> tr' = tr @ removalLog h st sid typ pairs \<and>
       map fst pairs =
         map ID (filter (\<lambda>info. \<not> Primary info \<and> registered st (ID info)) si)) \<or>
      (\<exists>i err rest.
         res = Some (DropSectorFailed err) \<and>
         tr' = tr @ removalLog h st sid typ pairs @ [EvDropSector i sid typ (Some err)] \<and>
         map ID (filter (\<lambda>info. \<not> Primary info \<and> registered st (ID info)) si) =
           map fst pairs @ i # rest)"
    using removeHolders_log [of h st sid "typ" "filter (\<lambda>info. \<not> Primary info) si" w tr res w' tr']
    by (simp add: filter_nonprimary_registered)
qed

theorem RemoveCopies_removes_witness:
  "RemoveCopies demoHost demoLocal ''s-t01-7'' FTUnsealed (0, []) = (None, (0, [])) \<and>
   (\<exists>pairs.
      [EvDropSector ''s2'' ''s-t01-7'' FTSealed None, EvRemoveAll ''/p2/sealed/s-t01-7'' None] =
        removalLog demoHost demoLocal ''s-t01-7'' FTSealed pairs \<and>
      map fst pairs = [''s2''])"
proof -
  have a1: "OnesCount FTUnsealed = 1" by (simp add: demo_OnesCount)
  have a2: "StorageFindSector (index demoLocal) 0 ''s-t01-7'' FTUnsealed False = Inr [holder s4 False]"
    by (simp add: demo_find)
  have a3: "\<forall>info \<in> set [holder s4 False]. \<not> Primary info" by (simp add: demo_ids)
  have b1: "OnesCount FTSealed = 1" by (simp add: demo_OnesCount)
  have b2: "StorageFindSector (index demoLocal) 0 ''s-t01-7'' FTSealed False =
      Inr [holder s4 False, holder s5 False, holder s1 True, holder s2 False]"
    by (simp add: demo_find)
  have b3: "\<exists>info \<in> set [holder s4 False, holder s5 False, holder s1 True, holder s2 False].
      Primary info"
    by (simp add: demo_ids)
  have targets: "map ID (filter (\<lambda>info. \<not> Primary info \<and> registered demoLocal (ID info))
      [holder s4 False, holder s5 False, holder s1 True, holder s2 False]) = [''s2'']"
    by (simp add: demo_ids demo_registered)
  have first: "RemoveCopies demoHost demoLocal ''s-t01-7'' FTUnsealed (0, []) = (None, (0, []))"
    using RemoveCopies_removes [OF a1 a2, of demoHost "[]"] a3 by blast
  have second: "\<exists>pairs.
      [EvDropSector ''s2'' ''s-t01-7'' FTSealed None, EvRemoveAll ''/p2/sealed/s-t01-7'' None] =
        removalLog demoHost demoLocal ''s-t01-7'' FTSealed pairs \<and>
      map fst pairs = [''s2'']"
    using RemoveCopies_removes [OF b1 b2, of demoHost "[]"] b3 demo_RemoveCopies targets
    by auto
  show ?thesis using first second by simp
qed

section \<open>Properties of MoveStorage\<close>


lemma moveLog_Cons:
  "moveLog s ((i, a, b, j, t) # moves) =
     EvDropSector i s t None # EvMove a b None # EvDeclareSector j s t True None # moveLog s moves"
  by (simp add: moveLog_def)

















end
